theory Spec2Isabelle
  imports Complex_Main "HOL-Library.Multiset"
begin

section \<open>Shared data model (src/types/database.ts)\<close>

type_synonym uid = string
type_synonym wid = string

text \<open>
  The facade and the session store type their errors as \<^verbatim>\<open>any\<close>. Two shapes occur: a
  plain string written by this code (\<^verbatim>\<open>"Not authenticated"\<close>, \<^verbatim>\<open>"No user logged in"\<close>)
  and the error object of the client SDK, of which the code reads the field \<^verbatim>\<open>code\<close>.
\<close>

datatype error = Msg string | GatewayError string string

fun error_code :: "error \<Rightarrow> string option" where
  "error_code (Msg s) = None"
| "error_code (GatewayError c m) = Some c"

text \<open>
  \<^verbatim>\<open>if (error)\<close> is JavaScript truthiness: \<^verbatim>\<open>null\<close> and the empty string are falsy, an
  object and a non-empty string are truthy.
\<close>

fun truthy :: "error option \<Rightarrow> bool" where
  "truthy None = False"
| "truthy (Some (Msg s)) = (s \<noteq> [])"
| "truthy (Some (GatewayError c m)) = True"

text \<open>An awaited call either resolves to a value or rejects (throws into the caller).\<close>

datatype 'a outcome = Returned 'a | Threw

record user =
  u_id :: uid
  u_email :: "string option"

record session =
  s_user :: user
  s_access_token :: string

record profile =
  p_id :: uid
  p_username :: "string option"
  p_full_name :: "string option"
  p_avatar_url :: "string option"
  p_bio :: "string option"
  p_date_of_birth :: "string option"
  p_height_cm :: "real option"
  p_weight_kg :: "real option"
  p_fitness_goal :: "string option"
  p_created_at :: "string option"

text \<open>
  \<^verbatim>\<open>Partial<Profile>\<close>: every key may be missing (outer \<open>None\<close>); a key that is present
  carries the field's value, which may itself be \<^verbatim>\<open>null\<close>.
\<close>

record profile_partial =
  pp_id :: "uid option"
  pp_username :: "string option option"
  pp_full_name :: "string option option"
  pp_avatar_url :: "string option option"
  pp_bio :: "string option option"
  pp_date_of_birth :: "string option option"
  pp_height_cm :: "real option option"
  pp_weight_kg :: "real option option"
  pp_fitness_goal :: "string option option"
  pp_created_at :: "string option option"

section \<open>Effects a component emits\<close>

text \<open>
  Every call a screen, a component or the session store makes into the service
  facade, every alert, log line and parent callback is recorded in the order the
  code performs it. The value a call resolves to is an argument of the model of the
  code that awaits it.
\<close>

datatype facade_call =
    Auth_signIn string string
  | Auth_signUp string string "string option"
  | Auth_signOut
  | Auth_getCurrentSession
  | Profile_getProfile uid
  | Profile_updateProfile uid profile_partial
  | Follow_followUser uid
  | Follow_unfollowUser uid
  | Follow_isFollowing uid
  | Workout_getPublicWorkouts nat

datatype effect =
    Call facade_call
  | Alert string string
  | ConsoleError string
  | ConsoleLog string
  | OnFollowChange bool

section \<open>Session store (src/contexts/AuthContext.tsx)\<close>

record auth_state =
  ctx_user :: "user option"
  ctx_session :: "session option"
  ctx_profile :: "profile option"
  ctx_loading :: bool

definition auth_initial :: auth_state where
  "auth_initial = \<lparr>ctx_user = None, ctx_session = None, ctx_profile = None, ctx_loading = True\<rparr>"

text \<open>
  \<^verbatim>\<open>fetchProfile(userId)\<close>: the argument \<open>r\<close> is what
  \<^verbatim>\<open>profileService.getProfile(userId)\<close> resolves to, the pair \<^verbatim>\<open>{data, error}\<close>.
  Every failure is caught and logged; the stored profile is replaced on success only.
\<close>

definition fetchProfile ::
  "uid \<Rightarrow> (profile option \<times> error option) outcome \<Rightarrow> auth_state \<Rightarrow> auth_state \<times> effect list" where
  "fetchProfile userId r st =
     (case r of
        Returned (data, err) \<Rightarrow>
          if truthy err
          then (st, [Call (Profile_getProfile userId), ConsoleError ''Error fetching profile:''])
          else (st\<lparr>ctx_profile := data\<rparr>, [Call (Profile_getProfile userId)])
      | Threw \<Rightarrow> (st, [Call (Profile_getProfile userId), ConsoleError ''Error fetching profile:'']))"

text \<open>
  \<^verbatim>\<open>getInitialSession\<close>: \<open>r\<close> is what \<^verbatim>\<open>authService.getCurrentSession()\<close> resolves to,
  \<open>rp\<close> what the profile fetch resolves to when it is made. A rejection of the first
  call is not caught: the function stops there.
\<close>

definition getInitialSession ::
  "(session option \<times> error option) outcome \<Rightarrow> (profile option \<times> error option) outcome
     \<Rightarrow> auth_state \<Rightarrow> unit outcome \<times> auth_state \<times> effect list" where
  "getInitialSession r rp st =
     (case r of
        Threw \<Rightarrow> (Threw, st, [Call Auth_getCurrentSession])
      | Returned (sess, err) \<Rightarrow>
          (let es1 = Call Auth_getCurrentSession #
                     (if truthy err then [ConsoleError ''Error getting session:''] else [])
           in case sess of
                Some s \<Rightarrow>
                  (let st1 = st\<lparr>ctx_session := Some s, ctx_user := Some (s_user s)\<rparr>;
                       (st2, es2) = fetchProfile (u_id (s_user s)) rp st1
                   in (Returned (), st2\<lparr>ctx_loading := False\<rparr>, es1 @ es2))
              | None \<Rightarrow> (Returned (), st\<lparr>ctx_loading := False\<rparr>, es1)))"

text \<open>
  The subscriber passed to \<^verbatim>\<open>supabase.auth.onAuthStateChange\<close>, run once per event:
  \<open>sess\<close> is the session the event carries (or none).
\<close>

definition onAuthStateChange ::
  "string \<Rightarrow> session option \<Rightarrow> (profile option \<times> error option) outcome
     \<Rightarrow> auth_state \<Rightarrow> auth_state \<times> effect list" where
  "onAuthStateChange event sess rp st =
     (let st1 = st\<lparr>ctx_session := sess, ctx_user := map_option s_user sess\<rparr>
      in case sess of
           Some s \<Rightarrow>
             (let (st2, es) = fetchProfile (u_id (s_user s)) rp st1
              in (st2\<lparr>ctx_loading := False\<rparr>, ConsoleLog ''Auth state changed:'' # es))
         | None \<Rightarrow>
             (st1\<lparr>ctx_profile := None, ctx_loading := False\<rparr>, [ConsoleLog ''Auth state changed:'']))"

text \<open>
  \<^verbatim>\<open>signIn\<close> and \<^verbatim>\<open>signUp\<close>: the busy flag is raised, the facade is awaited, the flag
  is lowered and the error handed back. Nothing is caught: a rejection leaves the
  flag raised.
\<close>

definition signIn ::
  "string \<Rightarrow> string \<Rightarrow> error option outcome \<Rightarrow> auth_state
     \<Rightarrow> error option outcome \<times> auth_state \<times> effect list" where
  "signIn email password r st =
     (case r of
        Returned err \<Rightarrow> (Returned err, st\<lparr>ctx_loading := False\<rparr>, [Call (Auth_signIn email password)])
      | Threw \<Rightarrow> (Threw, st\<lparr>ctx_loading := True\<rparr>, [Call (Auth_signIn email password)]))"

definition signUp ::
  "string \<Rightarrow> string \<Rightarrow> string option \<Rightarrow> error option outcome \<Rightarrow> auth_state
     \<Rightarrow> error option outcome \<times> auth_state \<times> effect list" where
  "signUp email password fullName r st =
     (case r of
        Returned err \<Rightarrow>
          (Returned err, st\<lparr>ctx_loading := False\<rparr>, [Call (Auth_signUp email password fullName)])
      | Threw \<Rightarrow> (Threw, st\<lparr>ctx_loading := True\<rparr>, [Call (Auth_signUp email password fullName)]))"

text \<open>
  \<^verbatim>\<open>signOut\<close>: \<open>r\<close> is what \<^verbatim>\<open>authService.signOut()\<close> resolves to, the \<^verbatim>\<open>error\<close> of the
  remote sign-out, which the code does not read.
\<close>

definition signOut ::
  "error option outcome \<Rightarrow> auth_state \<Rightarrow> unit outcome \<times> auth_state \<times> effect list" where
  "signOut r st =
     (case r of
        Returned err \<Rightarrow>
          (Returned (),
           st\<lparr>ctx_user := None, ctx_session := None, ctx_profile := None, ctx_loading := False\<rparr>,
           [Call Auth_signOut])
      | Threw \<Rightarrow> (Threw, st\<lparr>ctx_loading := True\<rparr>, [Call Auth_signOut]))"

text \<open>
  \<^verbatim>\<open>updateProfile(updates)\<close>: \<open>r\<close> is what \<^verbatim>\<open>profileService.updateProfile\<close> resolves
  to when it is called. \<^verbatim>\<open>!error && data\<close> reads the error by truthiness.
\<close>

definition updateProfile ::
  "profile_partial \<Rightarrow> (profile option \<times> error option) outcome \<Rightarrow> auth_state
     \<Rightarrow> error option outcome \<times> auth_state \<times> effect list" where
  "updateProfile updates r st =
     (case ctx_user st of
        None \<Rightarrow> (Returned (Some (Msg ''No user logged in'')), st, [])
      | Some u \<Rightarrow>
          (case r of
             Threw \<Rightarrow> (Threw, st, [Call (Profile_updateProfile (u_id u) updates)])
           | Returned (data, err) \<Rightarrow>
               (Returned err,
                (if \<not> truthy err \<and> data \<noteq> None then st\<lparr>ctx_profile := data\<rparr> else st),
                [Call (Profile_updateProfile (u_id u) updates)])))"

definition refreshProfile ::
  "(profile option \<times> error option) outcome \<Rightarrow> auth_state \<Rightarrow> auth_state \<times> effect list" where
  "refreshProfile rp st =
     (case ctx_user st of
        None \<Rightarrow> (st, [])
      | Some u \<Rightarrow> fetchProfile (u_id u) rp st)"

text \<open>
  A history of the session store: the operations a client invokes and the events the
  gateway pushes, each with the value its awaited call resolved to.
\<close>

datatype auth_op =
    Op_getInitialSession "(session option \<times> error option) outcome"
                         "(profile option \<times> error option) outcome"
  | Op_onAuthStateChange string "session option" "(profile option \<times> error option) outcome"
  | Op_signIn string string "error option outcome"
  | Op_signUp string string "string option" "error option outcome"
  | Op_signOut "error option outcome"
  | Op_updateProfile profile_partial "(profile option \<times> error option) outcome"
  | Op_refreshProfile "(profile option \<times> error option) outcome"

fun auth_step :: "auth_op \<Rightarrow> auth_state \<Rightarrow> auth_state" where
  "auth_step (Op_getInitialSession r rp) st = fst (snd (getInitialSession r rp st))"
| "auth_step (Op_onAuthStateChange ev sess rp) st = fst (onAuthStateChange ev sess rp st)"
| "auth_step (Op_signIn e p r) st = fst (snd (signIn e p r st))"
| "auth_step (Op_signUp e p n r) st = fst (snd (signUp e p n r st))"
| "auth_step (Op_signOut r) st = fst (snd (signOut r st))"
| "auth_step (Op_updateProfile u r) st = fst (snd (updateProfile u r st))"
| "auth_step (Op_refreshProfile rp) st = fst (refreshProfile rp st)"

fun auth_run :: "auth_op list \<Rightarrow> auth_state \<Rightarrow> auth_state" where
  "auth_run [] st = st"
| "auth_run (x # xs) st = auth_run xs (auth_step x st)"

section \<open>Remote tables (src/types/database.ts) and the gateway that holds them\<close>

type_synonym timestamp = nat

record workout =
  w_id :: wid
  w_user_id :: uid
  w_title :: string
  w_description :: "string option"
  w_date :: string
  w_duration_minutes :: "real option"
  w_calories_burned :: "real option"
  w_is_public :: bool
  w_created_at :: timestamp
  w_updated_at :: timestamp

text \<open>The \<^verbatim>\<open>Insert\<close> shape of a workout: optional keys are \<open>None\<close> when left out.\<close>

record workout_insert =
  wi_id :: "wid option"
  wi_user_id :: uid
  wi_title :: string
  wi_description :: "string option option"
  wi_date :: string
  wi_duration_minutes :: "real option option"
  wi_calories_burned :: "real option option"
  wi_is_public :: "bool option"
  wi_created_at :: "timestamp option"
  wi_updated_at :: "timestamp option"

record exercise =
  e_id :: string
  e_workout_id :: wid
  e_name :: string
  e_sets :: "real option"
  e_reps :: "real option"
  e_weight_kg :: "real option"
  e_duration_seconds :: "real option"
  e_notes :: "string option"
  e_created_at :: timestamp

text \<open>The embedded \<^verbatim>\<open>profiles:user_id (username, full_name, avatar_url)\<close> of a list query.\<close>

record profile_summary =
  ps_username :: "string option"
  ps_full_name :: "string option"
  ps_avatar_url :: "string option"

text \<open>
  A workout as a list query returns it: the row, the owner's profile summary, the child
  exercises and one \<^verbatim>\<open>{user_id}\<close> per like. The client type declares the three joined
  fields optional (\<^verbatim>\<open>workout_likes?: WorkoutLike[]\<close>).
\<close>

record workout_view =
  v_workout :: workout
  v_profiles :: "profile_summary option"
  v_exercises :: "exercise list option"
  v_workout_likes :: "uid list option"

datatype request =
    Auth_getUser
  | Follows_insert uid uid
  | Follows_delete uid uid
  | Follows_select_single uid uid
  | Follows_select_following uid
  | Workouts_insert workout_insert
  | Workouts_select_public nat
  | Workouts_select_in "uid list"
  | Likes_select_single uid wid
  | Likes_insert uid wid
  | Likes_delete uid wid

text \<open>
  Modelled from the spec: the Remote Data Gateway, an external service that is not
  under src/. It owns the session (\<open>g_auth_user\<close> is what \<^verbatim>\<open>supabase.auth.getUser()\<close>
  resolves to: the user of the current session, or none) and the tables. A follow edge
  is the pair (follower id, following id) and a like the pair (user id, workout id):
  the columns the service generates (row id, creation time) are read by no operation.
  \<open>g_faults\<close> scripts the requests that fail for a reason of the gateway's own (network,
  authorisation, a foreign key): each table request consumes one entry, \<open>Some (code,
  message)\<close> makes it fail without touching a table, \<open>None\<close> or an exhausted script lets
  it through. \<open>g_requests\<close> records every request issued, in order.
\<close>

record gateway =
  g_auth_user :: "user option"
  g_profiles :: "profile list"
  g_follows :: "(uid \<times> uid) list"
  g_workouts :: "workout list"
  g_exercises :: "exercise list"
  g_workout_likes :: "(uid \<times> wid) list"
  g_now :: timestamp
  g_default_public :: bool
  g_faults :: "(string \<times> string) option list"
  g_requests :: "request list"

text \<open>
  Modelled from the spec: the gateway's answer to \<^verbatim>\<open>supabase.auth.getUser()\<close> (sec. 6,
  "actor = current session"): the user of the current session, or none.
\<close>

definition getUser :: "gateway \<Rightarrow> user option \<times> gateway" where
  "getUser g = (g_auth_user g, g\<lparr>g_requests := g_requests g @ [Auth_getUser]\<rparr>)"

text \<open>
  Modelled from the spec: a table request reaching the gateway (sec. 7, \<open>RemoteFailure\<close>):
  it is recorded, and it fails with the error the fault script holds for it, if any.
\<close>

definition issue :: "request \<Rightarrow> gateway \<Rightarrow> error option \<times> gateway" where
  "issue r g =
     (case g_faults g of
        [] \<Rightarrow> (None, g\<lparr>g_requests := g_requests g @ [r]\<rparr>)
      | f # fs \<Rightarrow>
          (map_option (\<lambda>(c, m). GatewayError c m) f,
           g\<lparr>g_faults := fs, g_requests := g_requests g @ [r]\<rparr>))"

text \<open>
  Modelled from the spec: the entry of the fault script that the next table request will
  consume; \<open>None\<close> when the gateway will answer it.
\<close>

definition next_fault :: "gateway \<Rightarrow> (string \<times> string) option" where
  "next_fault g = (case g_faults g of [] \<Rightarrow> None | f # fs \<Rightarrow> f)"

text \<open>
  Modelled from the spec: \<^verbatim>\<open>.single()\<close> of the gateway's query interface (sec. 4.2 and
  sec. 7, "single-row query returned nothing"): exactly one row is the data; any other
  number of rows is the error with code \<^verbatim>\<open>PGRST116\<close> and no data.
\<close>

definition no_single_row :: error where
  "no_single_row = GatewayError ''PGRST116'' ''JSON object requested, multiple (or no) rows returned''"

text \<open>Modelled from the spec: \<^verbatim>\<open>.single()\<close> on the rows a query selected, as described above.\<close>

definition single :: "'a list \<Rightarrow> 'a option \<times> error option" where
  "single rows = (case rows of [r] \<Rightarrow> (Some r, None) | _ \<Rightarrow> (None, Some no_single_row))"

text \<open>
  Modelled from the spec: the uniqueness constraints of sec. 3 ("follow-edge uniqueness
  per pair", "like uniqueness per pair") and the duplicate-key failure of sec. 4.4. An
  insert of a pair that is present fails and changes nothing; a delete removes every
  matching row and succeeds also when there is none.
\<close>

definition duplicate_key :: error where
  "duplicate_key = GatewayError ''23505'' ''duplicate key value violates unique constraint''"

text \<open>Modelled from the spec: the insert of a follow edge under the uniqueness constraint.\<close>

definition follows_insert :: "uid \<Rightarrow> uid \<Rightarrow> gateway \<Rightarrow> error option \<times> gateway" where
  "follows_insert follower following g =
     (let (f, g1) = issue (Follows_insert follower following) g
      in case f of
           Some e \<Rightarrow> (Some e, g1)
         | None \<Rightarrow>
             if (follower, following) \<in> set (g_follows g1) then (Some duplicate_key, g1)
             else (None, g1\<lparr>g_follows := g_follows g1 @ [(follower, following)]\<rparr>))"

text \<open>Modelled from the spec: the delete of the follow edges that match both ids.\<close>

definition follows_delete :: "uid \<Rightarrow> uid \<Rightarrow> gateway \<Rightarrow> error option \<times> gateway" where
  "follows_delete follower following g =
     (let (f, g1) = issue (Follows_delete follower following) g
      in case f of
           Some e \<Rightarrow> (Some e, g1)
         | None \<Rightarrow> (None, g1\<lparr>g_follows := filter (\<lambda>p. p \<noteq> (follower, following)) (g_follows g1)\<rparr>))"

text \<open>Modelled from the spec: the single-row select of the follow edge of a pair.\<close>

definition follows_select_single ::
  "uid \<Rightarrow> uid \<Rightarrow> gateway \<Rightarrow> ((uid \<times> uid) option \<times> error option) \<times> gateway" where
  "follows_select_single follower following g =
     (let (f, g1) = issue (Follows_select_single follower following) g
      in case f of
           Some e \<Rightarrow> ((None, Some e), g1)
         | None \<Rightarrow> (single (filter (\<lambda>p. p = (follower, following)) (g_follows g1)), g1))"

text \<open>Modelled from the spec: the select of the ids a user follows.\<close>

definition follows_select_following ::
  "uid \<Rightarrow> gateway \<Rightarrow> (uid list option \<times> error option) \<times> gateway" where
  "follows_select_following follower g =
     (let (f, g1) = issue (Follows_select_following follower) g
      in case f of
           Some e \<Rightarrow> ((None, Some e), g1)
         | None \<Rightarrow> ((Some (map snd (filter (\<lambda>p. fst p = follower) (g_follows g1))), None), g1))"

text \<open>Modelled from the spec: the single-row select of the like of a (user, workout) pair.\<close>

definition likes_select_single ::
  "uid \<Rightarrow> wid \<Rightarrow> gateway \<Rightarrow> ((uid \<times> wid) option \<times> error option) \<times> gateway" where
  "likes_select_single u w g =
     (let (f, g1) = issue (Likes_select_single u w) g
      in case f of
           Some e \<Rightarrow> ((None, Some e), g1)
         | None \<Rightarrow> (single (filter (\<lambda>p. p = (u, w)) (g_workout_likes g1)), g1))"

text \<open>Modelled from the spec: the insert of a like under the uniqueness constraint.\<close>

definition likes_insert :: "uid \<Rightarrow> wid \<Rightarrow> gateway \<Rightarrow> error option \<times> gateway" where
  "likes_insert u w g =
     (let (f, g1) = issue (Likes_insert u w) g
      in case f of
           Some e \<Rightarrow> (Some e, g1)
         | None \<Rightarrow>
             if (u, w) \<in> set (g_workout_likes g1) then (Some duplicate_key, g1)
             else (None, g1\<lparr>g_workout_likes := g_workout_likes g1 @ [(u, w)]\<rparr>))"

text \<open>Modelled from the spec: the delete of the likes that match both ids.\<close>

definition likes_delete :: "uid \<Rightarrow> wid \<Rightarrow> gateway \<Rightarrow> error option \<times> gateway" where
  "likes_delete u w g =
     (let (f, g1) = issue (Likes_delete u w) g
      in case f of
           Some e \<Rightarrow> (Some e, g1)
         | None \<Rightarrow> (None, g1\<lparr>g_workout_likes := filter (\<lambda>p. p \<noteq> (u, w)) (g_workout_likes g1)\<rparr>))"

text \<open>
  Modelled from the spec: what the gateway stores for an inserted workout (sec. 3 and
  the \<^verbatim>\<open>Insert\<close> type): the keys the client left out are generated, the row id as a
  string that is the id of no stored workout, the times from the gateway's clock.
\<close>

definition fresh_id :: "workout list \<Rightarrow> wid" where
  "fresh_id rows = CHR ''w'' # concat (map w_id rows)"

text \<open>Modelled from the spec: the stored row, the generated values filled in.\<close>

definition stored_row :: "workout_insert \<Rightarrow> gateway \<Rightarrow> workout" where
  "stored_row i g =
     \<lparr>w_id = (case wi_id i of Some x \<Rightarrow> x | None \<Rightarrow> fresh_id (g_workouts g)),
      w_user_id = wi_user_id i,
      w_title = wi_title i,
      w_description = (case wi_description i of Some d \<Rightarrow> d | None \<Rightarrow> None),
      w_date = wi_date i,
      w_duration_minutes = (case wi_duration_minutes i of Some d \<Rightarrow> d | None \<Rightarrow> None),
      w_calories_burned = (case wi_calories_burned i of Some d \<Rightarrow> d | None \<Rightarrow> None),
      w_is_public = (case wi_is_public i of Some b \<Rightarrow> b | None \<Rightarrow> g_default_public g),
      w_created_at = (case wi_created_at i of Some t \<Rightarrow> t | None \<Rightarrow> g_now g),
      w_updated_at = (case wi_updated_at i of Some t \<Rightarrow> t | None \<Rightarrow> g_now g)\<rparr>"

text \<open>
  Modelled from the spec: the insert of a workout with \<^verbatim>\<open>.select().single()\<close>, which
  answers with the stored row; the row id is the primary key.
\<close>

definition workouts_insert ::
  "workout_insert \<Rightarrow> gateway \<Rightarrow> (workout option \<times> error option) \<times> gateway" where
  "workouts_insert i g =
     (let (f, g1) = issue (Workouts_insert i) g
      in case f of
           Some e \<Rightarrow> ((None, Some e), g1)
         | None \<Rightarrow>
             (let row = stored_row i g1
              in if w_id row \<in> set (map w_id (g_workouts g1)) then ((None, Some duplicate_key), g1)
                 else ((Some row, None), g1\<lparr>g_workouts := g_workouts g1 @ [row]\<rparr>)))"

text \<open>
  Modelled from the spec: the joins of a list query (sec. 4.2: the parent enriched with
  its children, an absent child collection being empty, never missing) and
  \<^verbatim>\<open>.order("created_at", {ascending: false})\<close>.
\<close>

definition join_view :: "gateway \<Rightarrow> workout \<Rightarrow> workout_view" where
  "join_view g w =
     \<lparr>v_workout = w,
      v_profiles =
        map_option (\<lambda>p. \<lparr>ps_username = p_username p, ps_full_name = p_full_name p,
                          ps_avatar_url = p_avatar_url p\<rparr>)
          (find (\<lambda>p. p_id p = w_user_id w) (g_profiles g)),
      v_exercises = Some (filter (\<lambda>e. e_workout_id e = w_id w) (g_exercises g)),
      v_workout_likes = Some (map fst (filter (\<lambda>l. snd l = w_id w) (g_workout_likes g)))\<rparr>"

text \<open>Modelled from the spec: the gateway's descending order by creation time.\<close>

definition newest_first :: "workout list \<Rightarrow> workout list" where
  "newest_first rows = rev (sort_key w_created_at rows)"

text \<open>Modelled from the spec: the public feed query, \<^verbatim>\<open>is_public = true\<close>, newest first, limited.\<close>

definition workouts_select_public ::
  "nat \<Rightarrow> gateway \<Rightarrow> (workout_view list option \<times> error option) \<times> gateway" where
  "workouts_select_public limit g =
     (let (f, g1) = issue (Workouts_select_public limit) g
      in case f of
           Some e \<Rightarrow> ((None, Some e), g1)
         | None \<Rightarrow>
             ((Some (map (join_view g1) (take limit (newest_first (filter w_is_public (g_workouts g1))))),
               None), g1))"

text \<open>Modelled from the spec: the public workouts of the users in a list, newest first.\<close>

definition workouts_select_in ::
  "uid list \<Rightarrow> gateway \<Rightarrow> (workout_view list option \<times> error option) \<times> gateway" where
  "workouts_select_in ids g =
     (let (f, g1) = issue (Workouts_select_in ids) g
      in case f of
           Some e \<Rightarrow> ((None, Some e), g1)
         | None \<Rightarrow>
             ((Some (map (join_view g1)
                      (newest_first (filter (\<lambda>w. w_is_public w \<and> w_user_id w \<in> set ids) (g_workouts g1)))),
               None), g1))"

section \<open>Service facade (src/services/supabase.ts)\<close>

definition not_authenticated :: error where
  "not_authenticated = Msg ''Not authenticated''"

text \<open>\<^verbatim>\<open>followService.followUser\<close>: the result is the \<^verbatim>\<open>error\<close>; \<^verbatim>\<open>data\<close> is never set.\<close>

definition followUser :: "uid \<Rightarrow> gateway \<Rightarrow> error option \<times> gateway" where
  "followUser followingId g =
     (let (usr, g1) = getUser g
      in case usr of
           None \<Rightarrow> (Some not_authenticated, g1)
         | Some u \<Rightarrow> follows_insert (u_id u) followingId g1)"

definition unfollowUser :: "uid \<Rightarrow> gateway \<Rightarrow> error option \<times> gateway" where
  "unfollowUser followingId g =
     (let (usr, g1) = getUser g
      in case usr of
           None \<Rightarrow> (Some not_authenticated, g1)
         | Some u \<Rightarrow> follows_delete (u_id u) followingId g1)"

text \<open>
  \<^verbatim>\<open>followService.isFollowing\<close>: the result is \<^verbatim>\<open>{isFollowing, error}\<close>, with
  \<^verbatim>\<open>isFollowing: !!data\<close> and \<^verbatim>\<open>error: error?.code === "PGRST116" ? null : error\<close>.
\<close>

definition isFollowing :: "uid \<Rightarrow> gateway \<Rightarrow> (bool \<times> error option) \<times> gateway" where
  "isFollowing followingId g =
     (let (usr, g1) = getUser g
      in case usr of
           None \<Rightarrow> ((False, Some not_authenticated), g1)
         | Some u \<Rightarrow>
             (let ((data, err), g2) = follows_select_single (u_id u) followingId g1
              in ((data \<noteq> None,
                   (case err of
                      None \<Rightarrow> None
                    | Some e \<Rightarrow> if error_code e = Some ''PGRST116'' then None else Some e)),
                  g2)))"

text \<open>
  \<^verbatim>\<open>workoutService.createWorkout\<close>: \<^verbatim>\<open>{...workout, user_id: user.id}\<close> overwrites the
  owner of the argument.
\<close>

definition createWorkout ::
  "workout_insert \<Rightarrow> gateway \<Rightarrow> (workout option \<times> error option) \<times> gateway" where
  "createWorkout workout g =
     (let (usr, g1) = getUser g
      in case usr of
           None \<Rightarrow> ((None, Some not_authenticated), g1)
         | Some u \<Rightarrow> workouts_insert (workout\<lparr>wi_user_id := u_id u\<rparr>) g1)"

definition getPublicWorkouts ::
  "nat \<Rightarrow> gateway \<Rightarrow> (workout_view list option \<times> error option) \<times> gateway" where
  "getPublicWorkouts limit g = workouts_select_public limit g"

definition getFollowingWorkouts ::
  "gateway \<Rightarrow> (workout_view list option \<times> error option) \<times> gateway" where
  "getFollowingWorkouts g =
     (let (usr, g1) = getUser g
      in case usr of
           None \<Rightarrow> ((Some [], Some not_authenticated), g1)
         | Some u \<Rightarrow>
             (let ((following, followingError), g2) = follows_select_following (u_id u) g1
              in if truthy followingError then ((Some [], followingError), g2)
                 else case following of
                        None \<Rightarrow> ((Some [], None), g2)
                      | Some fs \<Rightarrow>
                          if length fs = 0 then ((Some [], None), g2)
                          else workouts_select_in fs g2))"

text \<open>
  \<^verbatim>\<open>workoutService.toggleWorkoutLike\<close>: the result is \<^verbatim>\<open>{liked, error}\<close>, with no
  \<^verbatim>\<open>liked\<close> on the unauthenticated return. The error of the existence check is dropped:
  only its \<^verbatim>\<open>data\<close> is read.
\<close>

definition toggleWorkoutLike :: "wid \<Rightarrow> gateway \<Rightarrow> (bool option \<times> error option) \<times> gateway" where
  "toggleWorkoutLike workoutId g =
     (let (usr, g1) = getUser g
      in case usr of
           None \<Rightarrow> ((None, Some not_authenticated), g1)
         | Some u \<Rightarrow>
             (let ((existingLike, _), g2) = likes_select_single (u_id u) workoutId g1
              in if existingLike \<noteq> None
                 then (let (err, g3) = likes_delete (u_id u) workoutId g2 in ((Some False, err), g3))
                 else (let (err, g3) = likes_insert (u_id u) workoutId g2 in ((Some True, err), g3))))"

section \<open>Workout card (src/components/WorkoutCard.tsx)\<close>

text \<open>\<^verbatim>\<open>workout.workout_likes?.length || 0\<close> and \<^verbatim>\<open>workout.workout_likes?.some(...) || false\<close>.\<close>

definition likeCount :: "workout_view \<Rightarrow> nat" where
  "likeCount v = (case v_workout_likes v of None \<Rightarrow> 0 | Some ls \<Rightarrow> length ls)"

definition isLiked :: "user option \<Rightarrow> workout_view \<Rightarrow> bool" where
  "isLiked usr v =
     (case v_workout_likes v of
        None \<Rightarrow> False
      | Some ls \<Rightarrow> (case usr of None \<Rightarrow> False | Some u \<Rightarrow> u_id u \<in> set ls))"

section \<open>Follow button (src/components/FollowButton.tsx)\<close>

record follow_button =
  fb_isFollowing :: bool
  fb_loading :: bool
  fb_checkingStatus :: bool

definition follow_button_initial :: follow_button where
  "follow_button_initial = \<lparr>fb_isFollowing = False, fb_loading = False, fb_checkingStatus = True\<rparr>"

text \<open>The props: the target and whether the optional \<^verbatim>\<open>onFollowChange\<close> is supplied.\<close>

record follow_button_props =
  targetUserId :: uid
  has_onFollowChange :: bool

text \<open>
  \<^verbatim>\<open>checkFollowStatus\<close>, run by the effect on mount and on every change of the target or
  the viewer: \<open>r\<close> is what \<^verbatim>\<open>followService.isFollowing(targetUserId)\<close> resolves to.
\<close>

definition checkFollowStatus ::
  "follow_button_props \<Rightarrow> user option \<Rightarrow> (bool \<times> error option) outcome \<Rightarrow> follow_button
     \<Rightarrow> follow_button \<times> effect list" where
  "checkFollowStatus props usr r st =
     (if usr = None \<or> map_option u_id usr = Some (targetUserId props)
      then (st\<lparr>fb_checkingStatus := False\<rparr>, [])
      else case r of
             Returned (following, err) \<Rightarrow>
               if truthy err
               then (st\<lparr>fb_checkingStatus := False\<rparr>,
                     [Call (Follow_isFollowing (targetUserId props)),
                      ConsoleError ''Error checking follow status:''])
               else (st\<lparr>fb_isFollowing := following, fb_checkingStatus := False\<rparr>,
                     [Call (Follow_isFollowing (targetUserId props))])
           | Threw \<Rightarrow>
               (st\<lparr>fb_checkingStatus := False\<rparr>,
                [Call (Follow_isFollowing (targetUserId props)),
                 ConsoleError ''Error checking follow status:'']))"

text \<open>
  \<^verbatim>\<open>handleToggleFollow\<close> up to its \<^verbatim>\<open>await\<close>: the guard, the busy flag and the call
  chosen by the displayed state. It hands on the \<^verbatim>\<open>isFollowing\<close> its closure holds, or
  nothing when the guard returned.
\<close>

definition handleToggleFollow_start ::
  "follow_button_props \<Rightarrow> user option \<Rightarrow> follow_button
     \<Rightarrow> follow_button \<times> effect list \<times> bool option" where
  "handleToggleFollow_start props usr st =
     (if usr = None \<or> fb_loading st then (st, [], None)
      else (st\<lparr>fb_loading := True\<rparr>,
            [Call (if fb_isFollowing st then Follow_unfollowUser (targetUserId props)
                   else Follow_followUser (targetUserId props))],
            Some (fb_isFollowing st)))"

text \<open>
  \<^verbatim>\<open>handleToggleFollow\<close> from the point where the awaited call settles: \<open>r\<close> is the
  \<^verbatim>\<open>error\<close> it resolved to, \<open>captured\<close> the \<^verbatim>\<open>isFollowing\<close> of the closure.
\<close>

definition handleToggleFollow_resume ::
  "follow_button_props \<Rightarrow> bool \<Rightarrow> error option outcome \<Rightarrow> follow_button
     \<Rightarrow> follow_button \<times> effect list" where
  "handleToggleFollow_resume props captured r st =
     (case r of
        Returned err \<Rightarrow>
          if truthy err
          then (st\<lparr>fb_loading := False\<rparr>,
                [Alert ''Error'' ''Failed to update follow status'',
                 ConsoleError ''Follow toggle error:''])
          else (st\<lparr>fb_isFollowing := \<not> captured, fb_loading := False\<rparr>,
                (if has_onFollowChange props then [OnFollowChange (\<not> captured)] else []))
      | Threw \<Rightarrow>
          (st\<lparr>fb_loading := False\<rparr>,
           [ConsoleError ''Follow toggle error:'',
            Alert ''Error'' ''Failed to update follow status'']))"

definition handleToggleFollow ::
  "follow_button_props \<Rightarrow> user option \<Rightarrow> error option outcome \<Rightarrow> follow_button
     \<Rightarrow> follow_button \<times> effect list" where
  "handleToggleFollow props usr r st =
     (case handleToggleFollow_start props usr st of
        (st1, es1, None) \<Rightarrow> (st1, es1)
      | (st1, es1, Some captured) \<Rightarrow>
          (let (st2, es2) = handleToggleFollow_resume props captured r st1 in (st2, es1 @ es2)))"

text \<open>
  What the component renders: nothing, or the button with its label state, its
  \<^verbatim>\<open>disabled\<close> prop and the spinner that replaces the label while busy.
\<close>

record button_view =
  bv_following :: bool
  bv_disabled :: bool
  bv_spinner :: bool

definition render :: "follow_button_props \<Rightarrow> user option \<Rightarrow> follow_button \<Rightarrow> button_view option" where
  "render props usr st =
     (if fb_checkingStatus st \<or> usr = None \<or> map_option u_id usr = Some (targetUserId props)
      then None
      else Some \<lparr>bv_following = fb_isFollowing st, bv_disabled = fb_loading st,
                 bv_spinner = fb_loading st\<rparr>)"

text \<open>
  A press on the component: \<^verbatim>\<open>onPress={handleToggleFollow}\<close> belongs to the rendered
  button and \<^verbatim>\<open>disabled={loading}\<close> switches it off.
\<close>

definition press ::
  "follow_button_props \<Rightarrow> user option \<Rightarrow> error option outcome \<Rightarrow> follow_button
     \<Rightarrow> follow_button \<times> effect list" where
  "press props usr r st =
     (case render props usr st of
        None \<Rightarrow> (st, [])
      | Some b \<Rightarrow> if bv_disabled b then (st, []) else handleToggleFollow props usr r st)"

section \<open>User profile screen (src/screens/UserProfileScreen.tsx)\<close>

record profile_screen =
  ups_profile :: "profile option"
  ups_workouts :: "workout_view list"
  ups_followersCount :: int
  ups_followingCount :: int
  ups_loading :: bool

definition handleFollowChange :: "bool \<Rightarrow> profile_screen \<Rightarrow> profile_screen" where
  "handleFollowChange following scr =
     scr\<lparr>ups_followersCount :=
           (if following then ups_followersCount scr + 1 else ups_followersCount scr - 1)\<rparr>"

text \<open>
  The screen shows a spinner while loading and "User not found" without a profile;
  otherwise it mounts the button with \<^verbatim>\<open>targetUserId={userId}\<close> and
  \<^verbatim>\<open>onFollowChange={handleFollowChange}\<close>, for a viewer that is signed in and is not the
  viewed user. A press runs the button; each callback it emits runs the screen's handler.
\<close>

definition mounts_follow_button :: "uid \<Rightarrow> user option \<Rightarrow> profile_screen \<Rightarrow> bool" where
  "mounts_follow_button userId usr scr =
     (\<not> ups_loading scr \<and> ups_profile scr \<noteq> None
      \<and> usr \<noteq> None \<and> map_option u_id usr \<noteq> Some userId)"

fun deliver :: "effect \<Rightarrow> profile_screen \<Rightarrow> profile_screen" where
  "deliver (OnFollowChange b) scr = handleFollowChange b scr"
| "deliver _ scr = scr"

definition profile_screen_press ::
  "uid \<Rightarrow> user option \<Rightarrow> error option outcome \<Rightarrow> follow_button \<times> profile_screen
     \<Rightarrow> (follow_button \<times> profile_screen) \<times> effect list" where
  "profile_screen_press userId usr r bs =
     (if \<not> mounts_follow_button userId usr (snd bs) then (bs, [])
      else (let (st, es) = press \<lparr>targetUserId = userId, has_onFollowChange = True\<rparr> usr r (fst bs)
            in ((st, fold deliver es (snd bs)), es)))"

section \<open>Home screen (src/screens/HomeScreen.tsx)\<close>

record home_screen =
  hs_workouts :: "workout_view list"
  hs_loading :: bool
  hs_refreshing :: bool

definition home_screen_initial :: home_screen where
  "home_screen_initial = \<lparr>hs_workouts = [], hs_loading = True, hs_refreshing = False\<rparr>"

text \<open>\<^verbatim>\<open>fetchWorkouts(isRefresh)\<close> up to its \<^verbatim>\<open>await\<close>.\<close>

definition fetchWorkouts_start :: "bool \<Rightarrow> home_screen \<Rightarrow> home_screen \<times> effect list" where
  "fetchWorkouts_start isRefresh st =
     ((if \<not> isRefresh then st\<lparr>hs_loading := True\<rparr> else st), [Call (Workout_getPublicWorkouts 20)])"

text \<open>
  \<^verbatim>\<open>fetchWorkouts(isRefresh)\<close> from the point where
  \<^verbatim>\<open>workoutService.getPublicWorkouts(20)\<close> settles with \<open>r\<close>, through \<^verbatim>\<open>finally\<close>.
\<close>

definition fetchWorkouts_resume ::
  "bool \<Rightarrow> (workout_view list option \<times> error option) outcome \<Rightarrow> home_screen
     \<Rightarrow> home_screen \<times> effect list" where
  "fetchWorkouts_resume isRefresh r st =
     (let (st1, es) =
            (case r of
               Returned (data, err) \<Rightarrow>
                 if truthy err
                 then (st, [ConsoleError ''Error fetching workouts:'',
                            Alert ''Error'' ''Failed to load workouts''])
                 else (st\<lparr>hs_workouts := (case data of Some d \<Rightarrow> d | None \<Rightarrow> [])\<rparr>, [])
             | Threw \<Rightarrow>
                 (st, [ConsoleError ''Error fetching workouts:'',
                       Alert ''Error'' ''Failed to load workouts'']));
          st2 = st1\<lparr>hs_loading := False\<rparr>
      in ((if isRefresh then st2\<lparr>hs_refreshing := False\<rparr> else st2), es))"

definition fetchWorkouts ::
  "bool \<Rightarrow> (workout_view list option \<times> error option) outcome \<Rightarrow> home_screen
     \<Rightarrow> home_screen \<times> effect list" where
  "fetchWorkouts isRefresh r st =
     (let (st1, es1) = fetchWorkouts_start isRefresh st;
          (st2, es2) = fetchWorkouts_resume isRefresh r st1
      in (st2, es1 @ es2))"

text \<open>\<^verbatim>\<open>onRefresh\<close>: \<^verbatim>\<open>setRefreshing(true); fetchWorkouts(true)\<close>, up to the await and in full.\<close>

definition onRefresh_start :: "home_screen \<Rightarrow> home_screen \<times> effect list" where
  "onRefresh_start st = fetchWorkouts_start True (st\<lparr>hs_refreshing := True\<rparr>)"

definition onRefresh ::
  "(workout_view list option \<times> error option) outcome \<Rightarrow> home_screen \<Rightarrow> home_screen \<times> effect list" where
  "onRefresh r st = fetchWorkouts True r (st\<lparr>hs_refreshing := True\<rparr>)"

text \<open>
  \<^verbatim>\<open>handleWorkoutLike\<close> after a toggle that reported no error: \<^verbatim>\<open>fetchWorkouts(true)\<close>
  without raising \<^verbatim>\<open>refreshing\<close>.
\<close>

definition like_refetch_start :: "home_screen \<Rightarrow> home_screen \<times> effect list" where
  "like_refetch_start st = fetchWorkouts_start True st"

text \<open>
  The screen over time. Nothing stops a trigger while a fetch is in flight, so fetches
  overlap: an event starts one (the focus effect, a pull, the re-fetch after a like) or
  settles one that is in flight, in any order. Beside the state, the run counts the
  fetches in flight, those started with \<^verbatim>\<open>isRefresh\<close> false and those started with it true;
  a settlement with no matching fetch in flight does not happen and changes nothing.
\<close>

datatype home_event =
    Focus
  | Pull
  | LikeRefetch
  | Settled bool "(workout_view list option \<times> error option) outcome"

fun home_step :: "home_event \<Rightarrow> home_screen \<times> nat \<times> nat \<Rightarrow> home_screen \<times> nat \<times> nat" where
  "home_step Focus (st, nf, nr) = (fst (fetchWorkouts_start False st), Suc nf, nr)"
| "home_step Pull (st, nf, nr) = (fst (onRefresh_start st), nf, Suc nr)"
| "home_step LikeRefetch (st, nf, nr) = (fst (like_refetch_start st), nf, Suc nr)"
| "home_step (Settled False r) (st, nf, nr) =
     (if nf = 0 then (st, nf, nr) else (fst (fetchWorkouts_resume False r st), nf - 1, nr))"
| "home_step (Settled True r) (st, nf, nr) =
     (if nr = 0 then (st, nf, nr) else (fst (fetchWorkouts_resume True r st), nf, nr - 1))"

fun home_run :: "home_event list \<Rightarrow> home_screen \<times> nat \<times> nat \<Rightarrow> home_screen \<times> nat \<times> nat" where
  "home_run [] c = c"
| "home_run (e # es) c = home_run es (home_step e c)"

definition in_flight_covers :: "home_screen \<times> nat \<times> nat \<Rightarrow> bool" where
  "in_flight_covers c =
     (case c of (st, nf, nr) \<Rightarrow>
        (if hs_refreshing st then 0 < nr else True) \<and> (if hs_loading st then 0 < nf else True))"

text \<open>A settled call failed: it rejected, or it resolved with a truthy \<^verbatim>\<open>error\<close>.\<close>

fun failed :: "('a \<times> error option) outcome \<Rightarrow> bool" where
  "failed Threw = True"
| "failed (Returned (d, err)) = truthy err"

fun failed_error :: "error option outcome \<Rightarrow> bool" where
  "failed_error Threw = True"
| "failed_error (Returned err) = truthy err"

section \<open>Sample states\<close>

text \<open>
  The scenario of the specification: viewer A (id 1) and user B (id 2, handle "bee"), who
  owns one public workout that a third user has liked.
\<close>

definition viewer_a :: user where
  "viewer_a = \<lparr>u_id = ''1'', u_email = Some ''a@example.org''\<rparr>"

definition gateway_signed_out :: gateway where
  "gateway_signed_out =
     \<lparr>g_auth_user = None, g_profiles = [], g_follows = [], g_workouts = [], g_exercises = [],
      g_workout_likes = [], g_now = 0, g_default_public = True, g_faults = [], g_requests = []\<rparr>"

definition workout_of_b :: workout where
  "workout_of_b =
     \<lparr>w_id = ''w1'', w_user_id = ''2'', w_title = ''Leg day'', w_description = None,
      w_date = ''2024-01-01'', w_duration_minutes = None, w_calories_burned = None,
      w_is_public = True, w_created_at = 5, w_updated_at = 5\<rparr>"

definition gateway_a :: gateway where
  "gateway_a =
     gateway_signed_out\<lparr>g_auth_user := Some viewer_a, g_workouts := [workout_of_b],
                        g_workout_likes := [(''3'', ''w1'')]\<rparr>"

definition workout_draft :: workout_insert where
  "workout_draft =
     \<lparr>wi_id = None, wi_user_id = ''2'', wi_title = ''Run'', wi_description = None,
      wi_date = ''2024-01-02'', wi_duration_minutes = None, wi_calories_burned = None,
      wi_is_public = None, wi_created_at = None, wi_updated_at = None\<rparr>"

definition bio_update :: profile_partial where
  "bio_update =
     \<lparr>pp_id = None, pp_username = None, pp_full_name = None, pp_avatar_url = None,
      pp_bio = Some (Some ''hi''), pp_date_of_birth = None, pp_height_cm = None,
      pp_weight_kg = None, pp_fitness_goal = None, pp_created_at = None\<rparr>"

definition profile_of_b :: profile where
  "profile_of_b =
     \<lparr>p_id = ''2'', p_username = Some ''bee'', p_full_name = None, p_avatar_url = None,
      p_bio = None, p_date_of_birth = None, p_height_cm = None, p_weight_kg = None,
      p_fitness_goal = None, p_created_at = None\<rparr>"

definition screen_of_b :: profile_screen where
  "screen_of_b =
     \<lparr>ups_profile = Some profile_of_b, ups_workouts = [], ups_followersCount = 7,
      ups_followingCount = 3, ups_loading = False\<rparr>"

definition button_on_b :: follow_button_props where
  "button_on_b = \<lparr>targetUserId = ''2'', has_onFollowChange = True\<rparr>"

definition gateway_down :: error where
  "gateway_down = GatewayError ''503'' ''unavailable''"

section \<open>Facts about the gateway requests\<close>

lemma issue_requests: "g_requests (snd (issue r h)) = g_requests h @ [r]"
  by (cases "g_faults h") (simp_all add: issue_def)

lemma issue_no_fault:
  "next_fault g = None \<Longrightarrow>
     issue r g = (None, g\<lparr>g_faults := tl (g_faults g), g_requests := g_requests g @ [r]\<rparr>)"
  by (cases "g_faults g") (simp_all add: issue_def next_fault_def)

lemma follows_insert_requests:
  "g_requests (snd (follows_insert a b h)) = g_requests h @ [Follows_insert a b]"
  using issue_requests [of "Follows_insert a b" h]
  by (auto simp: follows_insert_def split: prod.splits option.splits)

lemma follows_delete_requests:
  "g_requests (snd (follows_delete a b h)) = g_requests h @ [Follows_delete a b]"
  using issue_requests [of "Follows_delete a b" h]
  by (auto simp: follows_delete_def split: prod.splits option.splits)

lemma workouts_insert_requests:
  "g_requests (snd (workouts_insert i h)) = g_requests h @ [Workouts_insert i]"
  using issue_requests [of "Workouts_insert i" h]
  by (auto simp: workouts_insert_def Let_def split: prod.splits option.splits)

lemma likes_insert_requests:
  "g_requests (snd (likes_insert a b h)) = g_requests h @ [Likes_insert a b]"
  using issue_requests [of "Likes_insert a b" h]
  by (auto simp: likes_insert_def split: prod.splits option.splits)

lemma likes_delete_requests:
  "g_requests (snd (likes_delete a b h)) = g_requests h @ [Likes_delete a b]"
  using issue_requests [of "Likes_delete a b" h]
  by (auto simp: likes_delete_def split: prod.splits option.splits)

lemma filter_eq_distinct:
  "distinct xs \<Longrightarrow> filter (\<lambda>p. p = x) xs = (if x \<in> set xs then [x] else [])"
  by (induction xs) auto

lemma likes_select_single_gateway:
  "snd (likes_select_single a w g) =
     g\<lparr>g_faults := tl (g_faults g), g_requests := g_requests g @ [Likes_select_single a w]\<rparr>"
  by (cases "g_faults g") (auto simp: likes_select_single_def issue_def split: option.splits)

lemma likes_select_single_data:
  "distinct (g_workout_likes g) \<Longrightarrow>
     (fst (fst (likes_select_single a w g)) \<noteq> None)
       = (next_fault g = None \<and> (a, w) \<in> set (g_workout_likes g))"
  by (cases "g_faults g")
     (auto simp: likes_select_single_def issue_def next_fault_def single_def filter_eq_distinct
           split: option.splits)

section \<open>Session store: sign-out and profile update\<close>

lemma auth_run_snoc: "auth_run (xs @ [x]) s = auth_step x (auth_run xs s)"
  by (induction xs arbitrary: s) simp_all

text \<open>
  C1. Whatever history \<open>ops\<close> of operations and pushed events the session store has been
  through, from whatever state, and whatever \<^verbatim>\<open>error\<close> (none or some) the remote sign-out
  resolves to: \<^verbatim>\<open>signOut\<close> returns, it has made the one remote call, and the identity,
  the credential and the profile are all absent in the state it leaves.
\<close>

theorem signOut_clears_session:
  "signOut (Returned err) (auth_run ops st) =
     (Returned (),
      (auth_run ops st)\<lparr>ctx_user := None, ctx_session := None, ctx_profile := None,
                         ctx_loading := False\<rparr>,
      [Call Auth_signOut])
   \<and> ctx_user (auth_run (ops @ [Op_signOut (Returned err)]) st) = None
   \<and> ctx_session (auth_run (ops @ [Op_signOut (Returned err)]) st) = None
   \<and> ctx_profile (auth_run (ops @ [Op_signOut (Returned err)]) st) = None"
  by (simp add: signOut_def auth_run_snoc)

text \<open>
  C9. With no identity in the session store, \<^verbatim>\<open>updateProfile\<close> returns the error
  \<^verbatim>\<open>'No user logged in'\<close>, makes no call into the facade, and leaves the whole state, the
  stored profile included, as it was: whatever the update and whatever the remote would
  have answered.
\<close>

theorem updateProfile_unauthenticated:
  "ctx_user st = None \<Longrightarrow>
     updateProfile updates r st = (Returned (Some (Msg ''No user logged in'')), st, [])"
  by (simp add: updateProfile_def)

theorem updateProfile_unauthenticated_witness:
  "ctx_user auth_initial = None \<and>
   updateProfile bio_update Threw auth_initial
     = (Returned (Some (Msg ''No user logged in'')), auth_initial, [])"
proof -
  have h: "ctx_user auth_initial = None" by (simp add: auth_initial_def)
  show ?thesis using h updateProfile_unauthenticated [OF h] by simp
qed

section \<open>Service facade: identity-scoped writes\<close>

text \<open>
  C2. \<^verbatim>\<open>followUser\<close>, \<^verbatim>\<open>unfollowUser\<close>, \<^verbatim>\<open>toggleWorkoutLike\<close> and \<^verbatim>\<open>createWorkout\<close> take
  no acting identity as an argument; each asks the gateway for the user of the current
  session first. When there is none, the result is the error \<^verbatim>\<open>"Not authenticated"\<close> and
  the gateway is left as it was but for that one question: no table request is issued.
  When there is one, the request that follows carries that user's id as the follower,
  the liker or the owner; for \<^verbatim>\<open>createWorkout\<close> it replaces the owner the argument names.
\<close>

theorem identity_scoped_writes:
  "(g_auth_user g = None \<longrightarrow>
      followUser t g = (Some (Msg ''Not authenticated''), g\<lparr>g_requests := g_requests g @ [Auth_getUser]\<rparr>)
    \<and> unfollowUser t g = (Some (Msg ''Not authenticated''), g\<lparr>g_requests := g_requests g @ [Auth_getUser]\<rparr>)
    \<and> toggleWorkoutLike w g =
        ((None, Some (Msg ''Not authenticated'')), g\<lparr>g_requests := g_requests g @ [Auth_getUser]\<rparr>)
    \<and> createWorkout wk g =
        ((None, Some (Msg ''Not authenticated'')), g\<lparr>g_requests := g_requests g @ [Auth_getUser]\<rparr>))
   \<and> (g_auth_user g = Some u \<longrightarrow>
      g_requests (snd (followUser t g)) = g_requests g @ [Auth_getUser, Follows_insert (u_id u) t]
    \<and> g_requests (snd (unfollowUser t g)) = g_requests g @ [Auth_getUser, Follows_delete (u_id u) t]
    \<and> g_requests (snd (createWorkout wk g)) =
        g_requests g @ [Auth_getUser, Workouts_insert (wk\<lparr>wi_user_id := u_id u\<rparr>)]
    \<and> (g_requests (snd (toggleWorkoutLike w g)) =
          g_requests g @ [Auth_getUser, Likes_select_single (u_id u) w, Likes_insert (u_id u) w]
        \<or> g_requests (snd (toggleWorkoutLike w g)) =
          g_requests g @ [Auth_getUser, Likes_select_single (u_id u) w, Likes_delete (u_id u) w]))"
proof -
  have unauth: "g_auth_user g = None \<Longrightarrow>
      followUser t g = (Some (Msg ''Not authenticated''), g\<lparr>g_requests := g_requests g @ [Auth_getUser]\<rparr>)
    \<and> unfollowUser t g = (Some (Msg ''Not authenticated''), g\<lparr>g_requests := g_requests g @ [Auth_getUser]\<rparr>)
    \<and> toggleWorkoutLike w g =
        ((None, Some (Msg ''Not authenticated'')), g\<lparr>g_requests := g_requests g @ [Auth_getUser]\<rparr>)
    \<and> createWorkout wk g =
        ((None, Some (Msg ''Not authenticated'')), g\<lparr>g_requests := g_requests g @ [Auth_getUser]\<rparr>)"
    by (simp add: followUser_def unfollowUser_def toggleWorkoutLike_def createWorkout_def
        getUser_def not_authenticated_def)
  have a1: "g_auth_user g = Some u \<Longrightarrow>
      g_requests (snd (followUser t g)) = g_requests g @ [Auth_getUser, Follows_insert (u_id u) t]"
    by (simp add: followUser_def getUser_def follows_insert_requests)
  have a2: "g_auth_user g = Some u \<Longrightarrow>
      g_requests (snd (unfollowUser t g)) = g_requests g @ [Auth_getUser, Follows_delete (u_id u) t]"
    by (simp add: unfollowUser_def getUser_def follows_delete_requests)
  have a3: "g_auth_user g = Some u \<Longrightarrow>
      g_requests (snd (createWorkout wk g)) =
        g_requests g @ [Auth_getUser, Workouts_insert (wk\<lparr>wi_user_id := u_id u\<rparr>)]"
    by (simp add: createWorkout_def getUser_def workouts_insert_requests)
  have a4: "g_auth_user g = Some u \<Longrightarrow>
       (g_requests (snd (toggleWorkoutLike w g)) =
          g_requests g @ [Auth_getUser, Likes_select_single (u_id u) w, Likes_insert (u_id u) w]
        \<or> g_requests (snd (toggleWorkoutLike w g)) =
          g_requests g @ [Auth_getUser, Likes_select_single (u_id u) w, Likes_delete (u_id u) w])"
  proof -
    assume au: "g_auth_user g = Some u"
    define g1 where "g1 = g\<lparr>g_requests := g_requests g @ [Auth_getUser]\<rparr>"
    obtain d e g2 where sel: "likes_select_single (u_id u) w g1 = ((d, e), g2)"
      by (metis prod.exhaust)
    have r2: "g_requests g2 = g_requests g @ [Auth_getUser, Likes_select_single (u_id u) w]"
      using likes_select_single_gateway [of "u_id u" w g1] sel by (simp add: g1_def)
    show ?thesis
    proof (cases d)
      case None
      then show ?thesis
        using au sel r2 likes_insert_requests [of "u_id u" w g2]
        by (auto simp: toggleWorkoutLike_def getUser_def g1_def [symmetric] split: prod.splits)
    next
      case (Some x)
      then show ?thesis
        using au sel r2 likes_delete_requests [of "u_id u" w g2]
        by (auto simp: toggleWorkoutLike_def getUser_def g1_def [symmetric] split: prod.splits)
    qed
  qed
  show ?thesis using unauth a1 a2 a3 a4 by blast
qed

theorem identity_scoped_writes_witness:
  "g_auth_user gateway_signed_out = None
   \<and> followUser ''2'' gateway_signed_out = (Some (Msg ''Not authenticated''), gateway_signed_out\<lparr>g_requests := [Auth_getUser]\<rparr>)
   \<and> createWorkout workout_draft gateway_signed_out =
       ((None, Some (Msg ''Not authenticated'')), gateway_signed_out\<lparr>g_requests := [Auth_getUser]\<rparr>)
   \<and> g_auth_user gateway_a = Some viewer_a
   \<and> g_requests (snd (followUser ''2'' gateway_a)) = [Auth_getUser, Follows_insert ''1'' ''2'']
   \<and> g_requests (snd (createWorkout workout_draft gateway_a)) =
       [Auth_getUser, Workouts_insert (workout_draft\<lparr>wi_user_id := ''1''\<rparr>)]"
proof -
  have h0: "g_auth_user gateway_signed_out = None" "g_requests gateway_signed_out = []"
    by (simp_all add: gateway_signed_out_def)
  have h1: "g_auth_user gateway_a = Some viewer_a" "g_requests gateway_a = []" "u_id viewer_a = ''1''"
    by (simp_all add: gateway_a_def gateway_signed_out_def viewer_a_def)
  show ?thesis
    using identity_scoped_writes [of gateway_signed_out "''2''" "''w1''" workout_draft viewer_a]
      identity_scoped_writes [of gateway_a "''2''" "''w1''" workout_draft viewer_a] h0 h1
    by simp
qed

section \<open>Service facade: existence check and following feed\<close>

text \<open>
  C3. For a viewer the gateway resolves from the session and a target with no follow edge
  from that viewer: when the gateway answers the existence check, its answer is the
  "no single row" error, and \<^verbatim>\<open>isFollowing\<close> returns \<^verbatim>\<open>{isFollowing: false, error: null}\<close>.
  A check that failed for another reason is told apart: its error is handed back.
\<close>

theorem isFollowing_no_edge:
  assumes "g_auth_user g = Some u" and "(u_id u, t) \<notin> set (g_follows g)"
  shows "(next_fault g = None \<longrightarrow> fst (isFollowing t g) = (False, None))
       \<and> (next_fault g = Some (c, m) \<and> c \<noteq> ''PGRST116'' \<longrightarrow>
            fst (isFollowing t g) = (False, Some (GatewayError c m)))"
proof -
  have empty: "filter (\<lambda>p. p = (u_id u, t)) (g_follows g) = []"
    using assms(2) by (induction "g_follows g") (auto simp: filter_empty_conv)
  have ok: "next_fault g = None \<Longrightarrow> fst (isFollowing t g) = (False, None)"
    using assms(1) empty
    by (simp add: isFollowing_def getUser_def follows_select_single_def issue_no_fault
        next_fault_def single_def no_single_row_def)
  have bad: "next_fault g = Some (c, m) \<Longrightarrow> c \<noteq> ''PGRST116'' \<Longrightarrow>
            fst (isFollowing t g) = (False, Some (GatewayError c m))"
    using assms(1)
    by (cases "g_faults g")
       (simp_all add: isFollowing_def getUser_def follows_select_single_def issue_def next_fault_def)
  show ?thesis using ok bad by blast
qed

theorem isFollowing_no_edge_witness:
  "g_auth_user gateway_a = Some viewer_a \<and> (u_id viewer_a, ''2'') \<notin> set (g_follows gateway_a)
   \<and> next_fault gateway_a = None \<and> fst (isFollowing ''2'' gateway_a) = (False, None)
   \<and> next_fault (gateway_a\<lparr>g_faults := [Some (''503'', ''unavailable'')]\<rparr>) = Some (''503'', ''unavailable'')
   \<and> fst (isFollowing ''2'' (gateway_a\<lparr>g_faults := [Some (''503'', ''unavailable'')]\<rparr>))
       = (False, Some (GatewayError ''503'' ''unavailable''))"
proof -
  have h: "g_auth_user gateway_a = Some viewer_a" "(u_id viewer_a, ''2'') \<notin> set (g_follows gateway_a)"
    "next_fault gateway_a = None"
    by (simp_all add: gateway_a_def gateway_signed_out_def next_fault_def)
  have k: "g_auth_user (gateway_a\<lparr>g_faults := [Some (''503'', ''unavailable'')]\<rparr>) = Some viewer_a"
    "(u_id viewer_a, ''2'') \<notin> set (g_follows (gateway_a\<lparr>g_faults := [Some (''503'', ''unavailable'')]\<rparr>))"
    "next_fault (gateway_a\<lparr>g_faults := [Some (''503'', ''unavailable'')]\<rparr>) = Some (''503'', ''unavailable'')"
    by (simp_all add: gateway_a_def gateway_signed_out_def next_fault_def)
  show ?thesis
    using isFollowing_no_edge [OF h(1) h(2), of "''503''" "''unavailable''"]
      isFollowing_no_edge [OF k(1) k(2), of "''503''" "''unavailable''"] h k
    by simp
qed

text \<open>
  C10. For a user the gateway resolves from the session and who follows no one: when the
  gateway answers the question for the followed ids, \<^verbatim>\<open>getFollowingWorkouts\<close> returns
  \<^verbatim>\<open>{data: [], error: null}\<close>, and the gateway has seen the session question and the
  follows query only: the workouts query is not issued and no table has changed.
\<close>

theorem getFollowingWorkouts_follows_no_one:
  assumes "g_auth_user g = Some u" and "u_id u \<notin> set (map fst (g_follows g))"
    and "next_fault g = None"
  shows "getFollowingWorkouts g =
           ((Some [], None),
            g\<lparr>g_faults := tl (g_faults g),
              g_requests := g_requests g @ [Auth_getUser, Follows_select_following (u_id u)]\<rparr>)"
proof -
  have empty: "filter (\<lambda>p. fst p = u_id u) (g_follows g) = []"
    using assms(2) by (force simp: filter_empty_conv)
  have nf: "next_fault (g\<lparr>g_requests := g_requests g @ [Auth_getUser]\<rparr>) = None"
    using assms(3) by (simp add: next_fault_def)
  show ?thesis
    using assms(1) empty
    by (simp add: getFollowingWorkouts_def getUser_def follows_select_following_def
        issue_no_fault [OF nf])
qed

theorem getFollowingWorkouts_follows_no_one_witness:
  "g_auth_user (gateway_a\<lparr>g_follows := [(''2'', ''1'')]\<rparr>) = Some viewer_a
   \<and> u_id viewer_a \<notin> set (map fst (g_follows (gateway_a\<lparr>g_follows := [(''2'', ''1'')]\<rparr>)))
   \<and> next_fault (gateway_a\<lparr>g_follows := [(''2'', ''1'')]\<rparr>) = None
   \<and> fst (getFollowingWorkouts (gateway_a\<lparr>g_follows := [(''2'', ''1'')]\<rparr>)) = (Some [], None)
   \<and> g_requests (snd (getFollowingWorkouts (gateway_a\<lparr>g_follows := [(''2'', ''1'')]\<rparr>)))
       = [Auth_getUser, Follows_select_following ''1'']"
proof -
  have h: "g_auth_user (gateway_a\<lparr>g_follows := [(''2'', ''1'')]\<rparr>) = Some viewer_a"
    "u_id viewer_a \<notin> set (map fst (g_follows (gateway_a\<lparr>g_follows := [(''2'', ''1'')]\<rparr>)))"
    "next_fault (gateway_a\<lparr>g_follows := [(''2'', ''1'')]\<rparr>) = None"
    by (simp_all add: gateway_a_def gateway_signed_out_def next_fault_def viewer_a_def)
  have r: "g_requests gateway_a = []" "u_id viewer_a = ''1''"
    by (simp_all add: gateway_a_def gateway_signed_out_def viewer_a_def)
  show ?thesis
    using getFollowingWorkouts_follows_no_one [OF h] h r by simp
qed

section \<open>Like toggle\<close>

lemma filter_absent: "x \<notin> set xs \<Longrightarrow> filter (\<lambda>p. p \<noteq> x) xs = xs"
  by (induction xs) auto

lemma filter_mset_absent: "x \<notin> set xs \<Longrightarrow> {#p \<in># mset xs. p \<noteq> x#} = mset xs"
  by (induction xs) auto

lemma mset_remove_add:
  "distinct xs \<Longrightarrow> x \<in> set xs \<Longrightarrow> add_mset x {#p \<in># mset xs. p \<noteq> x#} = mset xs"
  by (induction xs) (auto simp: filter_mset_absent)

lemma filter_append_absent:
  "x \<notin> set xs \<Longrightarrow> filter (\<lambda>p. p \<noteq> x) (xs @ [x]) = xs"
  by (simp add: filter_absent)

lemma likes_insert_ok:
  assumes "likes_insert a w g = (e, g')" and "\<not> truthy e"
  shows "(a, w) \<notin> set (g_workout_likes g) \<and>
         g' = g\<lparr>g_faults := tl (g_faults g), g_requests := g_requests g @ [Likes_insert a w],
                g_workout_likes := g_workout_likes g @ [(a, w)]\<rparr>"
  using assms
  by (cases "g_faults g")
     (auto simp: likes_insert_def issue_def duplicate_key_def split: option.splits if_splits)

lemma likes_delete_ok:
  assumes "likes_delete a w g = (e, g')" and "\<not> truthy e"
  shows "g' = g\<lparr>g_faults := tl (g_faults g), g_requests := g_requests g @ [Likes_delete a w],
                g_workout_likes := filter (\<lambda>p. p \<noteq> (a, w)) (g_workout_likes g)\<rparr>"
  using assms
  by (cases "g_faults g")
     (auto simp: likes_delete_def issue_def split: option.splits if_splits)

lemma toggle_success:
  assumes au: "g_auth_user g = Some u" and d: "distinct (g_workout_likes g)"
    and tg: "toggleWorkoutLike w g = ((l, e), g')" and ok: "\<not> truthy e"
  shows "(if (u_id u, w) \<in> set (g_workout_likes g)
          then l = Some False \<and> g_workout_likes g' = filter (\<lambda>p. p \<noteq> (u_id u, w)) (g_workout_likes g)
          else l = Some True \<and> g_workout_likes g' = g_workout_likes g @ [(u_id u, w)])
         \<and> g_auth_user g' = g_auth_user g \<and> g_workouts g' = g_workouts g
         \<and> g_profiles g' = g_profiles g \<and> g_exercises g' = g_exercises g"
proof -
  define g1 where "g1 = g\<lparr>g_requests := g_requests g @ [Auth_getUser]\<rparr>"
  have d1: "distinct (g_workout_likes g1)" using d by (simp add: g1_def)
  obtain dd ee g2 where sel: "likes_select_single (u_id u) w g1 = ((dd, ee), g2)"
    by (metis prod.exhaust)
  have present: "dd \<noteq> None \<longrightarrow> (u_id u, w) \<in> set (g_workout_likes g1)"
    using likes_select_single_data [OF d1, of "u_id u" w] sel by simp
  have g2: "g2 = g1\<lparr>g_faults := tl (g_faults g1),
                     g_requests := g_requests g1 @ [Likes_select_single (u_id u) w]\<rparr>"
    using likes_select_single_gateway [of "u_id u" w g1] sel by simp
  show ?thesis
  proof (cases "dd = None")
    case True
    obtain e3 g3 where ins: "likes_insert (u_id u) w g2 = (e3, g3)" by (metis prod.exhaust)
    have "l = Some True \<and> e = e3 \<and> g' = g3"
      using tg au sel ins True by (simp add: toggleWorkoutLike_def getUser_def g1_def [symmetric])
    then show ?thesis
      using likes_insert_ok [OF ins] ok by (simp add: g2 g1_def)
  next
    case False
    obtain e3 g3 where del: "likes_delete (u_id u) w g2 = (e3, g3)" by (metis prod.exhaust)
    have "l = Some False \<and> e = e3 \<and> g' = g3"
      using tg au sel del False by (simp add: toggleWorkoutLike_def getUser_def g1_def [symmetric])
    then show ?thesis
      using likes_delete_ok [OF del] ok present False by (simp add: g2 g1_def)
  qed
qed

lemma toggle_requests:
  assumes au: "g_auth_user g = Some u" and d: "distinct (g_workout_likes g)"
  shows "g_requests (snd (toggleWorkoutLike w g)) =
           g_requests g @ [Auth_getUser, Likes_select_single (u_id u) w,
             (if next_fault g = None \<and> (u_id u, w) \<in> set (g_workout_likes g)
              then Likes_delete (u_id u) w else Likes_insert (u_id u) w)]"
proof -
  note li = likes_insert_requests
  note ld = likes_delete_requests
  define g1 where "g1 = g\<lparr>g_requests := g_requests g @ [Auth_getUser]\<rparr>"
  have d1: "distinct (g_workout_likes g1)" using d by (simp add: g1_def)
  have nf: "next_fault g1 = next_fault g" by (simp add: g1_def next_fault_def)
  obtain dd ee g2 where sel: "likes_select_single (u_id u) w g1 = ((dd, ee), g2)"
    by (metis prod.exhaust)
  have p: "(dd \<noteq> None) = (next_fault g1 = None \<and> (u_id u, w) \<in> set (g_workout_likes g1))"
    using likes_select_single_data [OF d1, of "u_id u" w] sel by simp
  have g2: "g2 = g1\<lparr>g_faults := tl (g_faults g1),
                     g_requests := g_requests g1 @ [Likes_select_single (u_id u) w]\<rparr>"
    using likes_select_single_gateway [of "u_id u" w g1] sel by simp
  show ?thesis
  proof (cases "dd = None")
    case True
    then show ?thesis
      using au sel p nf li [of "u_id u" w g2]
      by (auto simp: toggleWorkoutLike_def getUser_def g1_def [symmetric] g2 split: prod.splits)
         (simp_all add: g1_def)
  next
    case False
    then show ?thesis
      using au sel p nf ld [of "u_id u" w g2]
      by (auto simp: toggleWorkoutLike_def getUser_def g1_def [symmetric] g2 split: prod.splits)
         (simp_all add: g1_def)
  qed
qed

lemma likeCount_join:
  "likeCount (join_view g x) = size (filter_mset (\<lambda>l. snd l = w_id x) (mset (g_workout_likes g)))"
  by (simp add: likeCount_def join_view_def flip: mset_filter)

lemma feed_likeCounts:
  assumes "mset (g_workout_likes g') = mset (g_workout_likes g)" and "g_workouts g' = g_workouts g"
    and "g_faults g' = g_faults g"
  shows "map_option (map likeCount) (fst (fst (getPublicWorkouts n g')))
       = map_option (map likeCount) (fst (fst (getPublicWorkouts n g)))"
proof -
  have lc: "likeCount (join_view h x) = likeCount (join_view k x)"
    if "mset (g_workout_likes h) = mset (g_workout_likes k)" for h k x
    using that by (simp add: likeCount_join)
  show ?thesis
    using assms
    by (cases "g_faults g")
       (auto simp: getPublicWorkouts_def workouts_select_public_def issue_def likeCount_join
             split: option.splits)
qed

text \<open>
  C4. For a user the gateway resolves from the session, a workout \<open>w\<close> and a likes table
  that respects its uniqueness constraint: \<^verbatim>\<open>toggleWorkoutLike\<close> takes no cached list; after
  the session question its first request is the single-row existence check for the pair,
  and the write that follows is the delete when the check found the like and the insert
  otherwise. A toggle that reports no error has inserted the like and reports
  \<^verbatim>\<open>liked: true\<close> when the like was absent, and has deleted it and reports
  \<^verbatim>\<open>liked: false\<close> when it was present. So after two successive toggles that both report
  no error the second has undone the first: the likes table holds the rows it held, and
  the next public list fetch shows the like counts that a fetch before the toggles shows.
\<close>

theorem toggleWorkoutLike_twice:
  assumes au: "g_auth_user g = Some u" and d: "distinct (g_workout_likes g)"
    and t1: "toggleWorkoutLike w g = ((l1, e1), g1)"
    and t2: "toggleWorkoutLike w g1 = ((l2, e2), g2)"
  shows "g_requests g1 =
           g_requests g @ [Auth_getUser, Likes_select_single (u_id u) w,
             (if next_fault g = None \<and> (u_id u, w) \<in> set (g_workout_likes g)
              then Likes_delete (u_id u) w else Likes_insert (u_id u) w)]
       \<and> (\<not> truthy e1 \<longrightarrow>
            (if (u_id u, w) \<in> set (g_workout_likes g)
             then l1 = Some False
                  \<and> g_workout_likes g1 = filter (\<lambda>p. p \<noteq> (u_id u, w)) (g_workout_likes g)
             else l1 = Some True \<and> g_workout_likes g1 = g_workout_likes g @ [(u_id u, w)]))
       \<and> (\<not> truthy e1 \<and> \<not> truthy e2 \<longrightarrow>
            l2 = map_option Not l1
          \<and> mset (g_workout_likes g2) = mset (g_workout_likes g)
          \<and> (\<forall>n. map_option (map likeCount) (fst (fst (getPublicWorkouts n g2)))
                 = map_option (map likeCount)
                     (fst (fst (getPublicWorkouts n (g\<lparr>g_faults := g_faults g2\<rparr>))))))"
proof -
  have req: "g_requests g1 =
           g_requests g @ [Auth_getUser, Likes_select_single (u_id u) w,
             (if next_fault g = None \<and> (u_id u, w) \<in> set (g_workout_likes g)
              then Likes_delete (u_id u) w else Likes_insert (u_id u) w)]"
    using toggle_requests [OF au d, of w] t1 by simp
  have two: "l2 = map_option Not l1
          \<and> mset (g_workout_likes g2) = mset (g_workout_likes g)
          \<and> (\<forall>n. map_option (map likeCount) (fst (fst (getPublicWorkouts n g2)))
                 = map_option (map likeCount)
                     (fst (fst (getPublicWorkouts n (g\<lparr>g_faults := g_faults g2\<rparr>)))))"
    if ok1: "\<not> truthy e1" and ok2: "\<not> truthy e2"
  proof -
    note s1 = toggle_success [OF au d t1 ok1]
    have au1: "g_auth_user g1 = Some u" using s1 au by simp
    have d1: "distinct (g_workout_likes g1)" using s1 d by (auto split: if_splits)
    note s2 = toggle_success [OF au1 d1 t2 ok2]
    have l: "l2 = map_option Not l1" using s1 s2 by (auto split: if_splits)
    have m: "mset (g_workout_likes g2) = mset (g_workout_likes g)"
    proof (cases "(u_id u, w) \<in> set (g_workout_likes g)")
      case True
      then show ?thesis using s1 s2 d by (simp add: mset_remove_add)
    next
      case False
      then show ?thesis using s1 s2 by (simp add: filter_mset_absent)
    qed
    have f: "map_option (map likeCount) (fst (fst (getPublicWorkouts n g2)))
                 = map_option (map likeCount)
                     (fst (fst (getPublicWorkouts n (g\<lparr>g_faults := g_faults g2\<rparr>))))" for n
      using feed_likeCounts [of g2 "g\<lparr>g_faults := g_faults g2\<rparr>" n] m s1 s2 by simp
    show ?thesis using l m f by blast
  qed
  show ?thesis
    using req toggle_success [OF au d t1] two by blast
qed


theorem toggleWorkoutLike_twice_witness:
  "g_auth_user gateway_a = Some viewer_a \<and> distinct (g_workout_likes gateway_a)
   \<and> fst (toggleWorkoutLike ''w1'' gateway_a) = (Some True, None)
   \<and> fst (toggleWorkoutLike ''w1'' (snd (toggleWorkoutLike ''w1'' gateway_a))) = (Some False, None)
   \<and> mset (g_workout_likes (snd (toggleWorkoutLike ''w1'' (snd (toggleWorkoutLike ''w1'' gateway_a)))))
       = mset (g_workout_likes gateway_a)
   \<and> map_option (map likeCount) (fst (fst (getPublicWorkouts 20 gateway_a))) = Some [1]
   \<and> map_option (map likeCount)
        (fst (fst (getPublicWorkouts 20 (snd (toggleWorkoutLike ''w1'' gateway_a))))) = Some [2]
   \<and> map_option (map likeCount)
        (fst (fst (getPublicWorkouts 20
           (snd (toggleWorkoutLike ''w1'' (snd (toggleWorkoutLike ''w1'' gateway_a))))))) = Some [1]"
proof -
  have f0: "map_option (map likeCount) (fst (fst (getPublicWorkouts 20 gateway_a))) = Some [1]"
    by (simp add: getPublicWorkouts_def workouts_select_public_def issue_def newest_first_def
        join_view_def likeCount_def gateway_a_def gateway_signed_out_def workout_of_b_def)
  have h: "g_auth_user gateway_a = Some viewer_a" "distinct (g_workout_likes gateway_a)"
    by (simp_all add: gateway_a_def gateway_signed_out_def)
  have r1: "fst (toggleWorkoutLike ''w1'' gateway_a) = (Some True, None)"
    by (simp add: toggleWorkoutLike_def getUser_def likes_select_single_def likes_insert_def
        issue_def single_def gateway_a_def gateway_signed_out_def viewer_a_def)
  have g1: "snd (toggleWorkoutLike ''w1'' gateway_a) =
      gateway_a\<lparr>g_workout_likes := [(''3'', ''w1''), (''1'', ''w1'')],
                g_requests := [Auth_getUser, Likes_select_single ''1'' ''w1'', Likes_insert ''1'' ''w1'']\<rparr>"
    by (simp add: toggleWorkoutLike_def getUser_def likes_select_single_def likes_insert_def
        issue_def single_def gateway_a_def gateway_signed_out_def viewer_a_def)
  have r2: "fst (toggleWorkoutLike ''w1'' (snd (toggleWorkoutLike ''w1'' gateway_a))) = (Some False, None)"
    unfolding g1
    by (simp add: toggleWorkoutLike_def getUser_def likes_select_single_def likes_delete_def
        issue_def single_def gateway_a_def gateway_signed_out_def viewer_a_def)
  have t1: "toggleWorkoutLike ''w1'' gateway_a =
              ((Some True, None), snd (toggleWorkoutLike ''w1'' gateway_a))"
    using r1 by (simp add: prod_eq_iff)
  have t2: "toggleWorkoutLike ''w1'' (snd (toggleWorkoutLike ''w1'' gateway_a)) =
              ((Some False, None), snd (toggleWorkoutLike ''w1'' (snd (toggleWorkoutLike ''w1'' gateway_a))))"
    using r2 by (simp add: prod_eq_iff)
  have f1: "map_option (map likeCount)
        (fst (fst (getPublicWorkouts 20 (snd (toggleWorkoutLike ''w1'' gateway_a))))) = Some [2]"
    unfolding g1
    by (simp add: getPublicWorkouts_def workouts_select_public_def issue_def newest_first_def
        join_view_def likeCount_def gateway_a_def gateway_signed_out_def workout_of_b_def)
  have same_faults: "g_faults (snd (toggleWorkoutLike ''w1'' (snd (toggleWorkoutLike ''w1'' gateway_a))))
      = g_faults gateway_a"
    unfolding g1
    by (simp add: toggleWorkoutLike_def getUser_def likes_select_single_def likes_delete_def
        issue_def single_def gateway_a_def gateway_signed_out_def viewer_a_def)
  show ?thesis
    using toggleWorkoutLike_twice [OF h t1 t2] h r1 r2 f0 f1 same_faults by simp
qed

section \<open>Home screen fetch\<close>

text \<open>
  A raised flag is covered by a fetch in flight that will lower it: \<^verbatim>\<open>refreshing\<close> by one
  started with \<^verbatim>\<open>isRefresh\<close> true, \<^verbatim>\<open>loading\<close> by one started with it false.
\<close>

lemma home_step_covers:
  assumes "in_flight_covers c"
  shows "in_flight_covers (home_step e c)"
proof -
  obtain st nf nr where c: "c = (st, nf, nr)" by (cases c)
  have a: "in_flight_covers (st, nf, nr)" using assms c by simp
  show ?thesis
  proof (cases e)
    case Focus
    then show ?thesis using a by (simp add: c in_flight_covers_def fetchWorkouts_start_def)
  next
    case Pull
    then show ?thesis
      using a by (simp add: c in_flight_covers_def onRefresh_start_def fetchWorkouts_start_def)
  next
    case LikeRefetch
    then show ?thesis
      using a by (simp add: c in_flight_covers_def like_refetch_start_def fetchWorkouts_start_def)
  next
    case (Settled b r)
    then show ?thesis
      using a
      by (cases b; cases r)
         (auto simp: c in_flight_covers_def fetchWorkouts_resume_def Let_def
            split: prod.splits if_splits)
  qed
qed

lemma home_run_covers: "in_flight_covers c \<Longrightarrow> in_flight_covers (home_run es c)"
  by (induction es arbitrary: c) (simp_all add: home_step_covers)

text \<open>
  C5. A fetch of the Home screen that fails, by an error result or by a thrown exception,
  leaves the displayed list as it was: as it was when the call settled, and so as it was
  when the fetch began, for a focus fetch and for a pull-to-refresh alike. In every
  outcome the fetch ends with \<^verbatim>\<open>loading\<close> false; a pull-to-refresh ends with \<^verbatim>\<open>refreshing\<close>
  false too, and a focus fetch, which does not write \<^verbatim>\<open>refreshing\<close>, ends with it false
  when no refresh was under way. While a pull-to-refresh is in flight the list and
  \<^verbatim>\<open>loading\<close> are untouched: only \<^verbatim>\<open>refreshing\<close> has been raised. And over time: from
  the mount of the screen, however the fetches that focus, pulls and likes start overlap
  and in whatever order and with whatever outcome they settle, once none is in flight
  both flags are false.
\<close>

theorem home_fetch_failure_keeps_items:
  "(failed r \<longrightarrow>
        hs_workouts (fst (fetchWorkouts_resume isRefresh r st)) = hs_workouts st
      \<and> hs_workouts (fst (fetchWorkouts isRefresh r st)) = hs_workouts st
      \<and> hs_workouts (fst (onRefresh r st)) = hs_workouts st)
   \<and> hs_loading (fst (fetchWorkouts_resume isRefresh r st)) = False
   \<and> hs_loading (fst (fetchWorkouts isRefresh r st)) = False
   \<and> hs_loading (fst (onRefresh r st)) = False
   \<and> hs_refreshing (fst (fetchWorkouts_resume True r st)) = False
   \<and> hs_refreshing (fst (onRefresh r st)) = False
   \<and> (\<not> hs_refreshing st \<longrightarrow> hs_refreshing (fst (fetchWorkouts False r st)) = False)
   \<and> fst (onRefresh_start st) = st\<lparr>hs_refreshing := True\<rparr>
   \<and> (snd (home_run (Focus # evs) (home_screen_initial, 0, 0)) = (0, 0) \<longrightarrow>
        \<not> hs_loading (fst (home_run (Focus # evs) (home_screen_initial, 0, 0)))
      \<and> \<not> hs_refreshing (fst (home_run (Focus # evs) (home_screen_initial, 0, 0))))"
proof -
  have keep: "failed r \<Longrightarrow> hs_workouts (fst (fetchWorkouts_resume b r s)) = hs_workouts s" for b s
    by (cases r) (auto simp: fetchWorkouts_resume_def Let_def split: prod.splits)
  have load: "hs_loading (fst (fetchWorkouts_resume b r s)) = False" for b s
    by (cases r) (auto simp: fetchWorkouts_resume_def Let_def split: prod.splits)
  have refr: "hs_refreshing (fst (fetchWorkouts_resume True r s)) = False" for s
    by (cases r) (auto simp: fetchWorkouts_resume_def Let_def split: prod.splits)
  have same: "hs_refreshing (fst (fetchWorkouts_resume False r s)) = hs_refreshing s" for s
    by (cases r) (auto simp: fetchWorkouts_resume_def Let_def split: prod.splits)
  have full: "fst (fetchWorkouts b r s) = fst (fetchWorkouts_resume b r (fst (fetchWorkouts_start b s)))"
    for b s
    by (simp add: fetchWorkouts_def split: prod.splits)
  have start: "hs_workouts (fst (fetchWorkouts_start b s)) = hs_workouts s
             \<and> hs_refreshing (fst (fetchWorkouts_start b s)) = hs_refreshing s" for b s
    by (simp add: fetchWorkouts_start_def)
  have c1: "failed r \<Longrightarrow> hs_workouts (fst (fetchWorkouts isRefresh r st)) = hs_workouts st"
    by (simp add: full keep start)
  have c2: "failed r \<Longrightarrow> hs_workouts (fst (onRefresh r st)) = hs_workouts st"
    by (simp add: onRefresh_def full keep start)
  have c3: "hs_loading (fst (fetchWorkouts isRefresh r st)) = False"
    by (simp add: full load)
  have c4: "hs_loading (fst (onRefresh r st)) = False"
    by (simp add: onRefresh_def full load)
  have c5: "hs_refreshing (fst (onRefresh r st)) = False"
    by (simp add: onRefresh_def full refr)
  have c6: "\<not> hs_refreshing st \<Longrightarrow> hs_refreshing (fst (fetchWorkouts False r st)) = False"
    by (simp add: full same start)
  have c7: "fst (onRefresh_start st) = st\<lparr>hs_refreshing := True\<rparr>"
    by (simp add: onRefresh_start_def fetchWorkouts_start_def)
  have c8: "snd (home_run (Focus # evs) (home_screen_initial, 0, 0)) = (0, 0) \<Longrightarrow>
        \<not> hs_loading (fst (home_run (Focus # evs) (home_screen_initial, 0, 0)))
      \<and> \<not> hs_refreshing (fst (home_run (Focus # evs) (home_screen_initial, 0, 0)))"
  proof -
    assume q: "snd (home_run (Focus # evs) (home_screen_initial, 0, 0)) = (0, 0)"
    have "in_flight_covers (home_step Focus (home_screen_initial, 0, 0))"
      by (simp add: in_flight_covers_def fetchWorkouts_start_def home_screen_initial_def)
    then have "in_flight_covers (home_run (Focus # evs) (home_screen_initial, 0, 0))"
      by (simp add: home_run_covers)
    then show ?thesis
      using q by (cases "home_run (Focus # evs) (home_screen_initial, 0, 0)")
                 (auto simp: in_flight_covers_def)
  qed
  show ?thesis
    using keep [of isRefresh st] load [of isRefresh st] refr [of st] c1 c2 c3 c4 c5 c6 c7 c8
    by blast
qed

theorem home_fetch_failure_keeps_items_witness:
  "failed (Returned (None, Some (GatewayError ''503'' ''unavailable'')))
   \<and> hs_workouts (fst (onRefresh (Returned (None, Some (GatewayError ''503'' ''unavailable'')))
                         (home_screen_initial\<lparr>hs_workouts := [join_view gateway_a workout_of_b],
                                               hs_loading := False\<rparr>)))
       = [join_view gateway_a workout_of_b]
   \<and> \<not> hs_refreshing home_screen_initial
   \<and> hs_refreshing (fst (fetchWorkouts False Threw home_screen_initial)) = False
   \<and> hs_loading (fst (fetchWorkouts False Threw home_screen_initial)) = False
   \<and> snd (home_run [Focus, Pull, Settled False Threw, Settled True Threw] (home_screen_initial, 0, 0)) = (0, 0)
   \<and> \<not> hs_loading (fst (home_run [Focus, Pull, Settled False Threw, Settled True Threw]
                           (home_screen_initial, 0, 0)))"
proof -
  have h: "failed (Returned (None, Some (GatewayError ''503'' ''unavailable'')))"
    "\<not> hs_refreshing home_screen_initial"
    "snd (home_run [Focus, Pull, Settled False Threw, Settled True Threw] (home_screen_initial, 0, 0)) = (0, 0)"
    by (simp_all add: home_screen_initial_def fetchWorkouts_start_def onRefresh_start_def)
  show ?thesis
    using home_fetch_failure_keeps_items
            [of "Returned (None, Some (GatewayError ''503'' ''unavailable''))" True
                "home_screen_initial\<lparr>hs_workouts := [join_view gateway_a workout_of_b],
                                      hs_loading := False\<rparr>"]
          home_fetch_failure_keeps_items [of Threw False home_screen_initial
                "[Pull, Settled False Threw, Settled True Threw]"] h
    by simp
qed

section \<open>Follow button\<close>

lemma follow_button_restore: "\<not> fb_loading st \<Longrightarrow> st\<lparr>fb_loading := False\<rparr> = st"
  by (cases st) simp

text \<open>
  C6. On the loaded profile screen of a user other than the signed-in viewer, with the button
  showing not-following, idle and past its initial check, a press issues
  \<^verbatim>\<open>followUser(target)\<close> and nothing else. When that call reports no error, the button
  shows following, the parent callback runs with \<^verbatim>\<open>true\<close> and the screen's followers
  count is one more, with no other field of the screen touched and no fetch issued. When
  the call fails, by an error result or an exception, the button and the screen are as
  they were, no callback runs, and what surfaces is one alert and one log line.
\<close>

theorem follow_press_flips_only_on_success:
  assumes "usr = Some u" and "u_id u \<noteq> userId"
    and "\<not> fb_isFollowing st" and "\<not> fb_loading st" and "\<not> fb_checkingStatus st"
    and "\<not> ups_loading scr" and "ups_profile scr \<noteq> None"
  shows "render \<lparr>targetUserId = userId, has_onFollowChange = True\<rparr> usr st
           = Some \<lparr>bv_following = False, bv_disabled = False, bv_spinner = False\<rparr>
       \<and> (\<not> failed_error r \<longrightarrow>
            profile_screen_press userId usr r (st, scr) =
              ((st\<lparr>fb_isFollowing := True\<rparr>,
                scr\<lparr>ups_followersCount := ups_followersCount scr + 1\<rparr>),
               [Call (Follow_followUser userId), OnFollowChange True]))
       \<and> (failed_error r \<longrightarrow>
            fst (profile_screen_press userId usr r (st, scr)) = (st, scr)
          \<and> hd (snd (profile_screen_press userId usr r (st, scr))) = Call (Follow_followUser userId)
          \<and> mset (tl (snd (profile_screen_press userId usr r (st, scr)))) =
              {#Alert ''Error'' ''Failed to update follow status'', ConsoleError ''Follow toggle error:''#})"
proof -
  let ?props = "\<lparr>targetUserId = userId, has_onFollowChange = True\<rparr>"
  have rn: "render ?props usr st = Some \<lparr>bv_following = False, bv_disabled = False, bv_spinner = False\<rparr>"
    using assms by (simp add: render_def)
  have pr: "press ?props usr r st = handleToggleFollow ?props usr r st"
    using rn by (simp add: press_def)
  have st1: "handleToggleFollow_start ?props usr st =
               (st\<lparr>fb_loading := True\<rparr>, [Call (Follow_followUser userId)], Some False)"
    using assms by (simp add: handleToggleFollow_start_def)
  have unchanged: "st\<lparr>fb_loading := False\<rparr> = st"
    using assms(4) by (rule follow_button_restore)
  have good: "\<not> failed_error r \<Longrightarrow>
      handleToggleFollow ?props usr r st =
        (st\<lparr>fb_isFollowing := True\<rparr>, [Call (Follow_followUser userId), OnFollowChange True])"
  proof -
    assume "\<not> failed_error r"
    then obtain err where r: "r = Returned err" "\<not> truthy err" by (cases r) auto
    have "st\<lparr>fb_loading := True, fb_isFollowing := True, fb_loading := False\<rparr> = st\<lparr>fb_isFollowing := True\<rparr>"
      using assms(4) by (cases st) simp
    then show ?thesis
      using r by (simp add: handleToggleFollow_def st1 handleToggleFollow_resume_def)
  qed
  have bad: "failed_error r \<Longrightarrow>
      fst (handleToggleFollow ?props usr r st) = st
    \<and> hd (snd (handleToggleFollow ?props usr r st)) = Call (Follow_followUser userId)
    \<and> mset (tl (snd (handleToggleFollow ?props usr r st))) =
        {#Alert ''Error'' ''Failed to update follow status'', ConsoleError ''Follow toggle error:''#}
    \<and> fold deliver (snd (handleToggleFollow ?props usr r st)) scr = scr"
    using unchanged
    by (cases r) (auto simp: handleToggleFollow_def st1 handleToggleFollow_resume_def)
  have guard: "mounts_follow_button userId usr (snd (st, scr))"
    using assms(1,2,6,7) by (simp add: mounts_follow_button_def)
  have c2: "\<not> failed_error r \<Longrightarrow>
            profile_screen_press userId usr r (st, scr) =
              ((st\<lparr>fb_isFollowing := True\<rparr>,
                scr\<lparr>ups_followersCount := ups_followersCount scr + 1\<rparr>),
               [Call (Follow_followUser userId), OnFollowChange True])"
    using guard good by (simp add: profile_screen_press_def pr handleFollowChange_def)
  have c3: "failed_error r \<Longrightarrow>
            fst (profile_screen_press userId usr r (st, scr)) = (st, scr)
          \<and> hd (snd (profile_screen_press userId usr r (st, scr))) = Call (Follow_followUser userId)
          \<and> mset (tl (snd (profile_screen_press userId usr r (st, scr)))) =
              {#Alert ''Error'' ''Failed to update follow status'', ConsoleError ''Follow toggle error:''#}"
    using guard bad by (auto simp: profile_screen_press_def pr split: prod.splits)
  show ?thesis using rn c2 c3 by blast
qed

theorem follow_press_flips_only_on_success_witness:
  "u_id viewer_a \<noteq> ''2''
   \<and> \<not> fb_isFollowing (follow_button_initial\<lparr>fb_checkingStatus := False\<rparr>)
   \<and> \<not> fb_loading (follow_button_initial\<lparr>fb_checkingStatus := False\<rparr>)
   \<and> \<not> fb_checkingStatus (follow_button_initial\<lparr>fb_checkingStatus := False\<rparr>)
   \<and> \<not> failed_error (Returned None)
   \<and> profile_screen_press ''2'' (Some viewer_a) (Returned None)
        (follow_button_initial\<lparr>fb_checkingStatus := False\<rparr>, screen_of_b)
       = ((follow_button_initial\<lparr>fb_checkingStatus := False, fb_isFollowing := True\<rparr>,
           screen_of_b\<lparr>ups_followersCount := 8\<rparr>),
          [Call (Follow_followUser ''2''), OnFollowChange True])
   \<and> failed_error (Returned (Some gateway_down))
   \<and> fst (profile_screen_press ''2'' (Some viewer_a) (Returned (Some gateway_down))
             (follow_button_initial\<lparr>fb_checkingStatus := False\<rparr>, screen_of_b))
       = (follow_button_initial\<lparr>fb_checkingStatus := False\<rparr>, screen_of_b)"
proof -
  have h: "Some viewer_a = Some viewer_a" "u_id viewer_a \<noteq> ''2''"
    "\<not> fb_isFollowing (follow_button_initial\<lparr>fb_checkingStatus := False\<rparr>)"
    "\<not> fb_loading (follow_button_initial\<lparr>fb_checkingStatus := False\<rparr>)"
    "\<not> fb_checkingStatus (follow_button_initial\<lparr>fb_checkingStatus := False\<rparr>)"
    "\<not> ups_loading screen_of_b" "ups_profile screen_of_b \<noteq> None"
    by (simp_all add: viewer_a_def follow_button_initial_def screen_of_b_def)
  have k: "\<not> failed_error (Returned None)" "failed_error (Returned (Some gateway_down))"
    "ups_followersCount screen_of_b + 1 = 8"
    by (simp_all add: gateway_down_def screen_of_b_def)
  show ?thesis
    using follow_press_flips_only_on_success [OF h, of "Returned None"]
      follow_press_flips_only_on_success [OF h, of "Returned (Some gateway_down)"] h k
    by simp
qed

text \<open>
  C7, as the claim states it, fails: after a first mount for viewer A on user B, an
  initial check that resolves with an error, or that throws, leaves a rendered, enabled
  button labelled "Follow", and a press on it issues \<^verbatim>\<open>followUser\<close>.
\<close>

theorem failed_check_hidden_counterexample:
  "render button_on_b (Some viewer_a)
     (fst (checkFollowStatus button_on_b (Some viewer_a) (Returned (False, Some gateway_down))
             follow_button_initial))
     = Some \<lparr>bv_following = False, bv_disabled = False, bv_spinner = False\<rparr>
   \<and> render button_on_b (Some viewer_a)
       (fst (checkFollowStatus button_on_b (Some viewer_a) Threw follow_button_initial))
     = Some \<lparr>bv_following = False, bv_disabled = False, bv_spinner = False\<rparr>
   \<and> snd (press button_on_b (Some viewer_a) (Returned None)
            (fst (checkFollowStatus button_on_b (Some viewer_a) Threw follow_button_initial)))
     = [Call (Follow_followUser ''2''), OnFollowChange True]"
  by (simp add: render_def checkFollowStatus_def press_def handleToggleFollow_def
      handleToggleFollow_start_def handleToggleFollow_resume_def button_on_b_def viewer_a_def
      follow_button_initial_def gateway_down_def)

text \<open>
  C7, amended. When the follow-existence check of a signed-in viewer on another user
  fails, by an error result or by an exception, the failure is logged, the checking flag
  is cleared and the following flag keeps the value it had before the check (false after
  a first mount). The component is then rendered with that value, and it is enabled
  unless a toggle is in flight.
\<close>

theorem failed_check_keeps_previous_state:
  assumes "usr = Some u" and "u_id u \<noteq> targetUserId props" and "failed r"
  shows "checkFollowStatus props usr r st =
           (st\<lparr>fb_checkingStatus := False\<rparr>,
            [Call (Follow_isFollowing (targetUserId props)),
             ConsoleError ''Error checking follow status:''])
       \<and> render props usr (fst (checkFollowStatus props usr r st)) =
           Some \<lparr>bv_following = fb_isFollowing st, bv_disabled = fb_loading st,
                  bv_spinner = fb_loading st\<rparr>"
  using assms by (cases r) (auto simp: checkFollowStatus_def render_def)

theorem failed_check_keeps_previous_state_witness:
  "u_id viewer_a \<noteq> targetUserId button_on_b \<and> failed (Returned (False, Some gateway_down))
   \<and> checkFollowStatus button_on_b (Some viewer_a) (Returned (False, Some gateway_down))
        follow_button_initial
       = (follow_button_initial\<lparr>fb_checkingStatus := False\<rparr>,
          [Call (Follow_isFollowing ''2''), ConsoleError ''Error checking follow status:''])"
proof -
  have h: "Some viewer_a = Some viewer_a" "u_id viewer_a \<noteq> targetUserId button_on_b"
    "failed (Returned (False, Some gateway_down))"
    by (simp_all add: viewer_a_def button_on_b_def gateway_down_def)
  have t: "targetUserId button_on_b = ''2''" by (simp add: button_on_b_def)
  show ?thesis
    using failed_check_keeps_previous_state [OF h, of follow_button_initial] h t by simp
qed

text \<open>
  C8. A press on the Follow Button while a toggle is in flight or while the status check
  that began at mount is still running is ignored: no call is issued and the state is as
  it was. While busy the button is disabled and the handler's own guard returns at once;
  while checking the component renders nothing, so there is no button to take the press.
\<close>

theorem toggle_ignored_while_busy_or_checking:
  "(fb_loading st \<or> fb_checkingStatus st \<longrightarrow> press props usr r st = (st, []))
   \<and> (fb_loading st \<longrightarrow>
        handleToggleFollow props usr r st = (st, [])
      \<and> handleToggleFollow_start props usr st = (st, [], None))
   \<and> (fb_checkingStatus st \<longrightarrow> render props usr st = None)"
  by (auto simp: press_def render_def handleToggleFollow_def handleToggleFollow_start_def
      split: option.splits)

theorem toggle_ignored_while_busy_or_checking_witness:
  "fb_checkingStatus follow_button_initial
   \<and> press button_on_b (Some viewer_a) (Returned None) follow_button_initial
       = (follow_button_initial, [])
   \<and> fb_loading (follow_button_initial\<lparr>fb_loading := True, fb_checkingStatus := False\<rparr>)
   \<and> press button_on_b (Some viewer_a) (Returned None)
        (follow_button_initial\<lparr>fb_loading := True, fb_checkingStatus := False\<rparr>)
       = (follow_button_initial\<lparr>fb_loading := True, fb_checkingStatus := False\<rparr>, [])
   \<and> handleToggleFollow button_on_b (Some viewer_a) (Returned None)
        (follow_button_initial\<lparr>fb_loading := True, fb_checkingStatus := False\<rparr>)
       = (follow_button_initial\<lparr>fb_loading := True, fb_checkingStatus := False\<rparr>, [])"
proof -
  have h: "fb_checkingStatus follow_button_initial"
    "fb_loading (follow_button_initial\<lparr>fb_loading := True, fb_checkingStatus := False\<rparr>)"
    by (simp_all add: follow_button_initial_def)
  show ?thesis
    using toggle_ignored_while_busy_or_checking
            [of follow_button_initial button_on_b "Some viewer_a" "Returned None"]
          toggle_ignored_while_busy_or_checking
            [of "follow_button_initial\<lparr>fb_loading := True, fb_checkingStatus := False\<rparr>"
                button_on_b "Some viewer_a" "Returned None"] h
    by simp
qed

end
